theory Spec2Isabelle
  imports Complex_Main
begin

section \<open>Numbers\<close>

text \<open>
  Every TypeScript \<open>number\<close> is modelled as a \<open>real\<close>: rounding is not modelled, and
  inputs are finite. A clock reading (\<open>Date.now()\<close>, milliseconds) is a \<open>real\<close> passed
  in as an argument. Where the source divides by a quantity that ordinary inputs can
  make zero, or names \<open>Infinity\<close> itself, the result is a \<open>jsnum\<close>, which keeps the
  non-finite values apart (signed zeros are not modelled).
\<close>

datatype jsnum = Fin real | PosInf | NegInf | NaN

definition js_div :: "real \<Rightarrow> real \<Rightarrow> jsnum" where
  "js_div a b =
     (if b \<noteq> 0 then Fin (a / b)
      else if a > 0 then PosInf
      else if a < 0 then NegInf
      else NaN)"

fun js_mul :: "jsnum \<Rightarrow> real \<Rightarrow> jsnum" where
  "js_mul (Fin x) c = Fin (x * c)"
| "js_mul PosInf c = (if c > 0 then PosInf else if c < 0 then NegInf else NaN)"
| "js_mul NegInf c = (if c > 0 then NegInf else if c < 0 then PosInf else NaN)"
| "js_mul NaN c = NaN"

text \<open>\<open>a > b\<close> on a possibly non-finite left operand; any comparison with NaN is false.\<close>

fun js_gt :: "jsnum \<Rightarrow> real \<Rightarrow> bool" where
  "js_gt (Fin x) c = (x > c)"
| "js_gt PosInf c = True"
| "js_gt NegInf c = False"
| "js_gt NaN c = False"

fun is_finite :: "jsnum \<Rightarrow> bool" where
  "is_finite (Fin x) = True"
| "is_finite PosInf = False"
| "is_finite NegInf = False"
| "is_finite NaN = False"

text \<open>\<open>Math.max(...xs)\<close> and \<open>Math.min(...xs)\<close>; with no argument they are
  \<open>-Infinity\<close> and \<open>Infinity\<close>.\<close>

definition Math_max_spread :: "real list \<Rightarrow> jsnum" where
  "Math_max_spread xs = (case xs of [] \<Rightarrow> NegInf | x # rest \<Rightarrow> Fin (fold max rest x))"

definition Math_min_spread :: "real list \<Rightarrow> jsnum" where
  "Math_min_spread xs = (case xs of [] \<Rightarrow> PosInf | x # rest \<Rightarrow> Fin (fold min rest x))"

section \<open>PnLTracker (src/utils/pnl_tracker.ts)\<close>

datatype exit_reason = take_profit | stop_loss | manual | timeout

record TradeResult =
  tradeId :: string
  tokenType :: string
  entryPrice :: real
  exitPrice :: real
  shares :: real
  pnl :: real
  pnlPercent :: jsnum
  exitReason :: exit_reason
  entryTime :: real
  exitTime :: real
  holdingTimeMs :: real

record TradingStats =
  totalTrades :: nat
  winningTrades :: nat
  losingTrades :: nat
  winRate :: jsnum
  totalPnL :: real
  averagePnL :: jsnum
  averageWin :: jsnum
  averageLoss :: jsnum
  profitFactor :: jsnum
  stats_maxDrawdown :: real
  bestTrade :: jsnum
  worstTrade :: jsnum
  averageHoldingTimeMs :: jsnum

record PnLTracker =
  trades :: "TradeResult list"
  runningPnL :: real
  peakPnL :: real
  maxDrawdown :: real

text \<open>The field initialisers of the class.\<close>

definition new_PnLTracker :: PnLTracker where
  "new_PnLTracker = \<lparr>trades = [], runningPnL = 0, peakPnL = 0, maxDrawdown = 0\<rparr>"

text \<open>\<open>recordTrade\<close>; the two log lines are not modelled.\<close>

definition recordTrade :: "PnLTracker \<Rightarrow> TradeResult \<Rightarrow> PnLTracker" where
  "recordTrade t result =
     (let trades1 = trades t @ [result];
          running = runningPnL t + pnl result;
          peak = (if running > peakPnL t then running else peakPnL t);
          currentDrawdown = peak - running;
          maxDD = (if currentDrawdown > maxDrawdown t then currentDrawdown else maxDrawdown t)
      in \<lparr>trades = trades1, runningPnL = running, peakPnL = peak, maxDrawdown = maxDD\<rparr>)"

definition recordTrades :: "PnLTracker \<Rightarrow> TradeResult list \<Rightarrow> PnLTracker" where
  "recordTrades t rs = fold (\<lambda>r acc. recordTrade acc r) rs t"

definition zeroStats :: TradingStats where
  "zeroStats =
     \<lparr>totalTrades = 0, winningTrades = 0, losingTrades = 0, winRate = Fin 0,
      totalPnL = 0, averagePnL = Fin 0, averageWin = Fin 0, averageLoss = Fin 0,
      profitFactor = Fin 0, stats_maxDrawdown = 0, bestTrade = Fin 0, worstTrade = Fin 0,
      averageHoldingTimeMs = Fin 0\<rparr>"

text \<open>The branch of \<open>getStats\<close> after the guard on an empty trade list, written for any
  tracker so that what it would compute on an empty list is visible.\<close>

definition computeStats :: "PnLTracker \<Rightarrow> TradingStats" where
  "computeStats t =
     (let winning = filter (\<lambda>r. pnl r > 0) (trades t);
          losing = filter (\<lambda>r. pnl r \<le> 0) (trades t);
          totalWins = fold (\<lambda>r s. s + pnl r) winning 0;
          totalLosses = \<bar>fold (\<lambda>r s. s + pnl r) losing 0\<bar>;
          pnls = map pnl (trades t);
          holdingTimes = map holdingTimeMs (trades t)
      in \<lparr>totalTrades = length (trades t),
          winningTrades = length winning,
          losingTrades = length losing,
          winRate = js_mul (js_div (real (length winning)) (real (length (trades t)))) 100,
          totalPnL = runningPnL t,
          averagePnL = js_div (runningPnL t) (real (length (trades t))),
          averageWin = (if length winning > 0 then js_div totalWins (real (length winning)) else Fin 0),
          averageLoss = (if length losing > 0 then js_div totalLosses (real (length losing)) else Fin 0),
          profitFactor =
            (if totalLosses > 0 then js_div totalWins totalLosses
             else if totalWins > 0 then PosInf else Fin 0),
          stats_maxDrawdown = maxDrawdown t,
          bestTrade = Math_max_spread pnls,
          worstTrade = Math_min_spread pnls,
          averageHoldingTimeMs =
            js_div (fold (\<lambda>b a. a + b) holdingTimes 0) (real (length holdingTimes))\<rparr>)"

definition getStats :: "PnLTracker \<Rightarrow> TradingStats" where
  "getStats t = (if length (trades t) = 0 then zeroStats else computeStats t)"

section \<open>OrderBookTracker (src/utils/order_book.ts)\<close>

record OrderLevel =
  level_price :: real
  level_size :: real

record OrderBookData =
  tokenId :: string
  bids :: "OrderLevel list"
  asks :: "OrderLevel list"
  lastUpdate :: real
  midPrice :: real
  spread :: real
  spreadPercent :: real

datatype side = BUY | SELL

text \<open>The warnings are template strings in the source; a warning here is the template
  it comes from together with the numbers it is formatted from.\<close>

datatype warning =
    NoOrderBookData
  | StaleData jsnum
  | HighSpread real real
  | NoLevels side
  | LowLiquidity real real
  | CannotFill real
  | HighSlippage jsnum

record LiquidityCheck =
  sufficient :: bool
  availableLiquidity :: real
  requiredLiquidity :: real
  estimatedSlippage :: jsnum
  effectivePrice :: jsnum
  warnings :: "warning list"

record OrderBookTracker =
  orderBooks :: "string \<rightharpoonup> OrderBookData"
  maxStaleMs :: real
  minLiquidityMultiplier :: real
  maxSpreadPercent :: real

text \<open>The constructor with its default arguments.\<close>

definition new_OrderBookTracker :: "real \<Rightarrow> real \<Rightarrow> real \<Rightarrow> OrderBookTracker" where
  "new_OrderBookTracker stale mult maxSpread =
     \<lparr>orderBooks = Map.empty, maxStaleMs = stale, minLiquidityMultiplier = mult,
      maxSpreadPercent = maxSpread\<rparr>"

definition default_OrderBookTracker :: OrderBookTracker where
  "default_OrderBookTracker = new_OrderBookTracker 10000 2.0 5.0"

text \<open>\<open>levels.length > 0 ? levels[0].price : 0\<close>\<close>

definition bestOf :: "OrderLevel list \<Rightarrow> real" where
  "bestOf levels = (case levels of [] \<Rightarrow> 0 | l # _ \<Rightarrow> level_price l)"

definition updateOrderBook ::
  "OrderBookTracker \<Rightarrow> real \<Rightarrow> string \<Rightarrow> OrderLevel list \<Rightarrow> OrderLevel list \<Rightarrow> OrderBookTracker" where
  "updateOrderBook tr now tid bs as =
     (let bestBid = bestOf bs;
          bestAsk = bestOf as;
          mid = (if bestBid > 0 \<and> bestAsk > 0 then (bestBid + bestAsk) / 2 else 0);
          spr = bestAsk - bestBid;
          sprPct = (if mid > 0 then (spr / mid) * 100 else 0)
      in tr\<lparr>orderBooks := (orderBooks tr)(tid \<mapsto>
            \<lparr>tokenId = tid, bids = bs, asks = as, lastUpdate = now, midPrice = mid,
             spread = spr, spreadPercent = sprPct\<rparr>)\<rparr>)"

definition getMidPrice :: "OrderBookTracker \<Rightarrow> string \<Rightarrow> real" where
  "getMidPrice tr tid = (case orderBooks tr tid of None \<Rightarrow> 0 | Some book \<Rightarrow> midPrice book)"

definition getSpread :: "OrderBookTracker \<Rightarrow> string \<Rightarrow> real \<times> real" where
  "getSpread tr tid =
     (case orderBooks tr tid of None \<Rightarrow> (0, 0) | Some book \<Rightarrow> (spread book, spreadPercent book))"

definition isStale :: "OrderBookTracker \<Rightarrow> real \<Rightarrow> string \<Rightarrow> bool" where
  "isStale tr now tid =
     (case orderBooks tr tid of None \<Rightarrow> True | Some book \<Rightarrow> now - lastUpdate book > maxStaleMs tr)"

definition getLastUpdateAge :: "OrderBookTracker \<Rightarrow> real \<Rightarrow> string \<Rightarrow> jsnum" where
  "getLastUpdateAge tr now tid =
     (case orderBooks tr tid of None \<Rightarrow> PosInf | Some book \<Rightarrow> Fin (now - lastUpdate book))"

text \<open>The loop of \<open>checkLiquidity\<close> over the levels; the accumulator is
  \<open>(totalLiquidity, weightedPriceSum, remainingAmount)\<close>.\<close>

fun walkLevels :: "OrderLevel list \<Rightarrow> real \<times> real \<times> real \<Rightarrow> real \<times> real \<times> real" where
  "walkLevels [] acc = acc"
| "walkLevels (level # rest) (totalLiquidity, weightedPriceSum, remainingAmount) =
     (let levelValue = level_price level * level_size level;
          totalLiquidity1 = totalLiquidity + levelValue
      in if remainingAmount > 0
         then (let fillAmount = min remainingAmount levelValue
               in walkLevels rest
                    (totalLiquidity1, weightedPriceSum + level_price level * fillAmount,
                     remainingAmount - fillAmount))
         else walkLevels rest (totalLiquidity1, weightedPriceSum, remainingAmount))"

text \<open>\<open>Math.abs(effectivePrice - bestPrice) / bestPrice\<close> for \<open>bestPrice > 0\<close>.\<close>

fun slippageOf :: "jsnum \<Rightarrow> real \<Rightarrow> jsnum" where
  "slippageOf (Fin e) best = Fin (\<bar>e - best\<bar> / best)"
| "slippageOf PosInf best = PosInf"
| "slippageOf NegInf best = PosInf"
| "slippageOf NaN best = NaN"

definition checkLiquidity ::
  "OrderBookTracker \<Rightarrow> real \<Rightarrow> string \<Rightarrow> side \<Rightarrow> real \<Rightarrow> LiquidityCheck" where
  "checkLiquidity tr now tid sd amount =
     (case orderBooks tr tid of
        None \<Rightarrow>
          \<lparr>sufficient = False, availableLiquidity = 0, requiredLiquidity = amount,
           estimatedSlippage = Fin 1, effectivePrice = Fin 0, warnings = [NoOrderBookData]\<rparr>
      | Some book \<Rightarrow>
          (let warnings1 = (if isStale tr now tid then [StaleData (getLastUpdateAge tr now tid)] else []);
               warnings2 = warnings1 @
                 (if spreadPercent book > maxSpreadPercent tr
                  then [HighSpread (spreadPercent book) (maxSpreadPercent tr)] else []);
               levels = (if sd = BUY then asks book else bids book)
           in if length levels = 0
              then \<lparr>sufficient = False, availableLiquidity = 0, requiredLiquidity = amount,
                    estimatedSlippage = Fin 1, effectivePrice = Fin 0,
                    warnings = warnings2 @ [NoLevels sd]\<rparr>
              else
                (case walkLevels levels (0, 0, amount) of
                   (totalLiquidity, weightedPriceSum, remainingAmount) \<Rightarrow>
                     (let effective =
                            (if amount > 0
                             then js_div weightedPriceSum (amount - max 0 remainingAmount)
                             else Fin (bestOf levels));
                          bestPrice = bestOf levels;
                          slippage = (if bestPrice > 0 then slippageOf effective bestPrice else Fin 0);
                          required = amount * minLiquidityMultiplier tr;
                          suff = (totalLiquidity \<ge> required \<and> remainingAmount \<le> 0);
                          warnings3 = warnings2 @
                            (if \<not> suff
                             then (if totalLiquidity < required
                                   then [LowLiquidity totalLiquidity required] else []) @
                                  (if remainingAmount > 0 then [CannotFill remainingAmount] else [])
                             else []);
                          warnings4 = warnings3 @
                            (if js_gt slippage 0.01 then [HighSlippage slippage] else [])
                      in \<lparr>sufficient = suff, availableLiquidity = totalLiquidity,
                          requiredLiquidity = required, estimatedSlippage = slippage,
                          effectivePrice = effective, warnings = warnings4\<rparr>))))"

text \<open>The book of the liquidity scenario: asks \<open>(1.00, 10)\<close> and \<open>(1.02, 10)\<close>, no bids,
  stored at time 0 in a tracker with the default settings.\<close>

definition scenario_asks :: "OrderLevel list" where
  "scenario_asks = [\<lparr>level_price = 1.00, level_size = 10\<rparr>, \<lparr>level_price = 1.02, level_size = 10\<rparr>]"

definition scenario_tracker :: OrderBookTracker where
  "scenario_tracker = updateOrderBook default_OrderBookTracker 0 ''UP'' [] scenario_asks"

text \<open>The levels a check walks, and their total notional value.\<close>

definition sideLevels :: "OrderBookData \<Rightarrow> side \<Rightarrow> OrderLevel list" where
  "sideLevels book sd = (if sd = BUY then asks book else bids book)"

definition walkableLiquidity :: "OrderLevel list \<Rightarrow> real" where
  "walkableLiquidity levels = sum_list (map (\<lambda>l. level_price l * level_size l) levels)"

text \<open>A level as the data model has it: a positive price and a size that is not negative.\<close>

definition wellFormedLevels :: "OrderLevel list \<Rightarrow> bool" where
  "wellFormedLevels levels = list_all (\<lambda>l. level_price l > 0 \<and> level_size l \<ge> 0) levels"

section \<open>RateLimiter (src/utils/rate_limiter.ts)\<close>

record RateLimiterConfig =
  maxRetries :: real
  baseDelayMs :: real
  maxDelayMs :: real

definition DEFAULT_CONFIG :: RateLimiterConfig where
  "DEFAULT_CONFIG = \<lparr>maxRetries = 4, baseDelayMs = 1000, maxDelayMs = 16000\<rparr>"

text \<open>A value a thunk rejects with is an \<open>Error\<close> with its message; \<open>FailedAfter op n\<close> is
  the error \<open>executeWithRetry\<close> builds itself, \<open>`${op} failed after ${n} attempts`\<close>.\<close>

datatype js_error = Error string | FailedAfter string real

text \<open>What the limiter does that can be observed, in order. \<open>SlotWait\<close> and \<open>Backoff\<close> are
  both \<open>this.sleep(ms)\<close>: the one in \<open>waitForSlot\<close> and the one after a failed attempt.
  \<open>Called k\<close> is the invocation of the thunk in attempt \<open>k\<close>. \<open>WarnRetry\<close> stands for the two
  \<open>console.warn\<close> lines (operation, attempt + 1, maxRetries + 1, error, delay) and
  \<open>ErrorRateLimited\<close> for the \<open>console.error\<close> line.\<close>

datatype rl_event =
    SlotWait real
  | Called nat
  | WarnRetry string real real js_error real
  | Backoff real
  | ErrorRateLimited string real

text \<open>The mutable part of the limiter and its environment: the clock that \<open>Date.now()\<close>
  reads, which advances only by sleeping and by exactly the time asked for, the
  \<open>lastCallTime\<close> map, and the events so far.\<close>

record rl_state =
  clock :: real
  lastCallTime :: "string \<rightharpoonup> real"
  trace :: "rl_event list"

definition sleep :: "rl_state \<Rightarrow> real \<Rightarrow> rl_event \<Rightarrow> rl_state" where
  "sleep st ms ev = st\<lparr>clock := clock st + ms, trace := trace st @ [ev]\<rparr>"

definition waitForSlot :: "real \<Rightarrow> rl_state \<Rightarrow> string \<Rightarrow> rl_state" where
  "waitForSlot minIntervalMs st key =
     (let now = clock st;
          lastCall = (case lastCallTime st key of None \<Rightarrow> 0 | Some t \<Rightarrow> t);
          elapsed = now - lastCall;
          st1 = (if elapsed < minIntervalMs
                 then sleep st (minIntervalMs - elapsed) (SlotWait (minIntervalMs - elapsed))
                 else st)
      in st1\<lparr>lastCallTime := (lastCallTime st1)(key \<mapsto> clock st1)\<rparr>)"

fun starts_with :: "string \<Rightarrow> string \<Rightarrow> bool" where
  "starts_with s [] = True"
| "starts_with [] (p # ps) = False"
| "starts_with (c # cs) (p # ps) = (c = p \<and> starts_with cs ps)"

text \<open>\<open>String.prototype.includes\<close>\<close>

fun str_includes :: "string \<Rightarrow> string \<Rightarrow> bool" where
  "str_includes [] pat = (pat = [])"
| "str_includes (c # cs) pat = (starts_with (c # cs) pat \<or> str_includes cs pat)"

definition errorMessage :: "js_error \<Rightarrow> string" where
  "errorMessage e = (case e of Error m \<Rightarrow> m | FailedAfter opn n \<Rightarrow> [])"

definition isRateLimit :: "js_error \<Rightarrow> bool" where
  "isRateLimit e =
     (str_includes (errorMessage e) ''429'' \<or> str_includes (errorMessage e) ''rate limit'' \<or>
      str_includes (errorMessage e) ''too many requests'')"

definition backoffDelay :: "RateLimiterConfig \<Rightarrow> nat \<Rightarrow> real" where
  "backoffDelay cfg attempt = min (baseDelayMs cfg * 2 ^ attempt) (maxDelayMs cfg)"

text \<open>The \<open>for\<close> loop of \<open>executeWithRetry\<close>, from \<open>attempt\<close> on. The thunk is given by its
  result at each invocation, counted from 0: \<open>Inl\<close> a rejection, \<open>Inr\<close> the value.\<close>

function retryLoop ::
  "RateLimiterConfig \<Rightarrow> real \<Rightarrow> (nat \<Rightarrow> js_error + 'a) \<Rightarrow> string \<Rightarrow> nat \<Rightarrow> js_error option
     \<Rightarrow> rl_state \<Rightarrow> (js_error + 'a) \<times> rl_state" where
  "retryLoop cfg minIntervalMs fn operationName attempt lastError st =
     (if real attempt \<le> maxRetries cfg
      then (let st1 = waitForSlot minIntervalMs st operationName;
                st2 = st1\<lparr>trace := trace st1 @ [Called attempt]\<rparr>
            in case fn attempt of
                 Inr v \<Rightarrow> (Inr v, st2)
               | Inl error \<Rightarrow>
                   (if real attempt < maxRetries cfg
                    then (let delay = backoffDelay cfg attempt;
                              st3 = st2\<lparr>trace := trace st2 @
                                      [WarnRetry operationName (real attempt + 1)
                                         (maxRetries cfg + 1) error delay]\<rparr>
                          in retryLoop cfg minIntervalMs fn operationName (attempt + 1) (Some error)
                               (sleep st3 delay (Backoff delay)))
                    else retryLoop cfg minIntervalMs fn operationName (attempt + 1) (Some error)
                           (if isRateLimit error
                            then st2\<lparr>trace := trace st2 @
                                   [ErrorRateLimited operationName (maxRetries cfg + 1)]\<rparr>
                            else st2)))
      else (Inl (case lastError of
                   Some e \<Rightarrow> e
                 | None \<Rightarrow> FailedAfter operationName (maxRetries cfg + 1)), st))"
  by pat_completeness auto
termination
proof (relation "measure (\<lambda>(cfg, mi, fn, opn, attempt, le, st). nat \<lfloor>maxRetries cfg\<rfloor> + 1 - attempt)",
    goal_cases)
  case 1
  show ?case by simp
next
  case (2 cfg mi fn opn attempt lastError st x xa xb xc xd)
  then have "int attempt \<le> \<lfloor>maxRetries cfg\<rfloor>"
    by (simp add: le_floor_iff)
  then have "attempt \<le> nat \<lfloor>maxRetries cfg\<rfloor>"
    by linarith
  then show ?case by simp
next
  case (3 cfg mi fn opn attempt lastError st x xa xb)
  then have "int attempt \<le> \<lfloor>maxRetries cfg\<rfloor>"
    by (simp add: le_floor_iff)
  then have "attempt \<le> nat \<lfloor>maxRetries cfg\<rfloor>"
    by linarith
  then show ?case by simp
qed

declare retryLoop.simps [simp del]

record RateLimiter =
  config :: RateLimiterConfig
  minIntervalMs :: real

text \<open>The constructor with its defaults, and the limiter the bots build from the
  environment defaults.\<close>

definition new_RateLimiter :: "real \<Rightarrow> RateLimiterConfig \<Rightarrow> RateLimiter" where
  "new_RateLimiter mi cfg = \<lparr>config = cfg, minIntervalMs = mi\<rparr>"

definition defaultRateLimiter :: RateLimiter where
  "defaultRateLimiter = new_RateLimiter 100 DEFAULT_CONFIG"

definition executeWithRetry ::
  "RateLimiter \<Rightarrow> (nat \<Rightarrow> js_error + 'a) \<Rightarrow> string \<Rightarrow> rl_state \<Rightarrow> (js_error + 'a) \<times> rl_state" where
  "executeWithRetry rl fn operationName st =
     retryLoop (config rl) (minIntervalMs rl) fn operationName 0 None st"

text \<open>Reading a trace: the delays slept after failures, and the number of invocations.\<close>

fun backoffs :: "rl_event list \<Rightarrow> real list" where
  "backoffs [] = []"
| "backoffs (Backoff d # evs) = d # backoffs evs"
| "backoffs (ev # evs) = backoffs evs"

fun invocations :: "rl_event list \<Rightarrow> nat" where
  "invocations [] = 0"
| "invocations (Called k # evs) = Suc (invocations evs)"
| "invocations (ev # evs) = invocations evs"

text \<open>The retry scenario: a thunk that fails three times and then succeeds, and a fresh
  limiter state at a wall-clock time.\<close>

definition failing3 :: "nat \<Rightarrow> js_error + string" where
  "failing3 k = (if k < 3 then Inl (Error ''boom'') else Inr ''ok'')"

definition fresh_state :: rl_state where
  "fresh_state = \<lparr>clock = 1700000000000, lastCallTime = Map.empty, trace = []\<rparr>"

section \<open>BitcoinOracle (src/oracle/bitcoin_oracle.ts)\<close>

record PricePoint =
  price :: real
  timestamp :: real
  source :: string

record OracleData =
  od_currentPrice :: real
  priceChange1m :: real
  priceChange5m :: real
  priceChange15m :: real
  momentum :: real
  volatility :: real
  probUp :: real
  probDown :: real
  confidence :: real
  od_timestamp :: real
  sources :: "string set"

text \<open>The fields of the class that the modelled methods read or write. \<open>activeSources\<close> is
  a \<open>Set\<close> of exchange names; only its members and its size are used.\<close>

record BitcoinOracle =
  priceHistory :: "PricePoint list"
  maxHistorySize :: nat
  currentPrice :: real
  momentumWindow :: real
  volatilityWindow :: real
  activeSources :: "string set"

text \<open>\<open>config.x || d\<close>: the default also replaces a configured 0.\<close>

definition orDefault :: "real option \<Rightarrow> real \<Rightarrow> real" where
  "orDefault x d = (case x of None \<Rightarrow> d | Some v \<Rightarrow> if v = 0 then d else v)"

definition new_BitcoinOracle :: "real option \<Rightarrow> real option \<Rightarrow> BitcoinOracle" where
  "new_BitcoinOracle mw vw =
     \<lparr>priceHistory = [], maxHistorySize = 1000, currentPrice = 0,
      momentumWindow = orDefault mw 60, volatilityWindow = orDefault vw 300,
      activeSources = {}\<rparr>"

definition exchangeNames :: "string list" where
  "exchangeNames = [''binance'', ''coinbase'', ''kraken'']"

text \<open>One exchange in a fetch cycle. \<open>fetch name\<close> is what requesting and parsing gave:
  \<open>None\<close> when the request or the parser threw or the text parsed to NaN, otherwise the
  parsed price. A price that is not positive is thrown away as invalid.\<close>

definition fetchOne :: "(string \<Rightarrow> real option) \<Rightarrow> string \<Rightarrow> (real \<times> string) option" where
  "fetchOne fetch name =
     (case fetch name of
        None \<Rightarrow> None
      | Some p \<Rightarrow> if p > 0 then Some (p, name) else None)"

definition collectPrices :: "real \<Rightarrow> (string \<Rightarrow> real option) \<Rightarrow> PricePoint list" where
  "collectPrices ts fetch =
     List.map_filter
       (\<lambda>name. case fetchOne fetch name of
                  None \<Rightarrow> None
                | Some (p, s) \<Rightarrow> Some \<lparr>price = p, timestamp = ts, source = s\<rparr>)
       exchangeNames"

definition updateSources :: "(string \<Rightarrow> real option) \<Rightarrow> string set \<Rightarrow> string set" where
  "updateSources fetch active =
     fold (\<lambda>name act. case fetchOne fetch name of
                         None \<Rightarrow> act - {name}
                       | Some r \<Rightarrow> insert name act)
       exchangeNames active"

text \<open>\<open>xs.slice(-n)\<close> for a count \<open>n\<close>; \<open>slice(-0)\<close> is the whole array.\<close>

definition sliceLast :: "'a list \<Rightarrow> nat \<Rightarrow> 'a list" where
  "sliceLast xs n = (if n = 0 then xs else drop (length xs - n) xs)"

definition fetchPrices :: "BitcoinOracle \<Rightarrow> real \<Rightarrow> (string \<Rightarrow> real option) \<Rightarrow> BitcoinOracle" where
  "fetchPrices orc ts fetch =
     (let orc1 = orc\<lparr>activeSources := updateSources fetch (activeSources orc)\<rparr>;
          prices = collectPrices ts fetch
      in if length prices = 0 then orc1
         else (let sortedPrices = sort (map price prices);
                   medianPrice = sortedPrices ! (length sortedPrices div 2);
                   history = priceHistory orc1 @
                     [\<lparr>price = medianPrice, timestamp = ts, source = ''median''\<rparr>]
               in orc1\<lparr>currentPrice := medianPrice,
                       priceHistory :=
                         (if length history > maxHistorySize orc1
                          then sliceLast history (maxHistorySize orc1) else history)\<rparr>))"

text \<open>The loop of \<open>getPriceAtTime\<close>; \<open>None\<close> is the start, with no closest point and
  \<open>minDiff = Infinity\<close>.\<close>

fun closestPoint :: "PricePoint list \<Rightarrow> real \<Rightarrow> (PricePoint \<times> real) option \<Rightarrow> (PricePoint \<times> real) option" where
  "closestPoint [] targetTime best = best"
| "closestPoint (point # rest) targetTime best =
     (let diff = \<bar>timestamp point - targetTime\<bar>
      in closestPoint rest targetTime
           (case best of
              None \<Rightarrow> Some (point, diff)
            | Some (closest, minDiff) \<Rightarrow> if diff < minDiff then Some (point, diff) else best))"

definition getPriceAtTime :: "BitcoinOracle \<Rightarrow> real \<Rightarrow> real" where
  "getPriceAtTime orc targetTime =
     (case closestPoint (priceHistory orc) targetTime None of
        None \<Rightarrow> 0
      | Some (closest, minDiff) \<Rightarrow> if minDiff < 30000 then price closest else 0)"

text \<open>The regression loop of \<open>calculateMomentum\<close> from index \<open>i\<close>; the accumulator is
  \<open>(sumX, sumY, sumXY, sumX2)\<close>.\<close>

fun regressionSums :: "PricePoint list \<Rightarrow> nat \<Rightarrow> real \<times> real \<times> real \<times> real \<Rightarrow> real \<times> real \<times> real \<times> real" where
  "regressionSums [] i acc = acc"
| "regressionSums (p # ps) i (sumX, sumY, sumXY, sumX2) =
     (let x = real i; y = price p
      in regressionSums ps (i + 1) (sumX + x, sumY + y, sumXY + x * y, sumX2 + x * x))"

definition calculateMomentum :: "BitcoinOracle \<Rightarrow> real \<Rightarrow> real" where
  "calculateMomentum orc now =
     (let windowMs = momentumWindow orc * 1000;
          cutoff = now - windowMs;
          recentPrices = filter (\<lambda>p. timestamp p \<ge> cutoff) (priceHistory orc)
      in if length recentPrices < 2 then 0
         else (let n = real (length recentPrices)
               in case regressionSums recentPrices 0 (0, 0, 0, 0) of
                    (sumX, sumY, sumXY, sumX2) \<Rightarrow>
                      (let slope = (n * sumXY - sumX * sumY) / (n * sumX2 - sumX * sumX);
                           avgPrice = sumY / n;
                           momentumPerSec = (slope / avgPrice) * 1000
                       in max (- 1) (min 1 (momentumPerSec * 100)))))"

fun successiveReturns :: "PricePoint list \<Rightarrow> real list" where
  "successiveReturns (a # b # rest) = (price b - price a) / price a # successiveReturns (b # rest)"
| "successiveReturns [a] = []"
| "successiveReturns [] = []"

definition calculateVolatility :: "BitcoinOracle \<Rightarrow> real \<Rightarrow> real" where
  "calculateVolatility orc now =
     (let windowMs = volatilityWindow orc * 1000;
          cutoff = now - windowMs;
          recentPrices = filter (\<lambda>p. timestamp p \<ge> cutoff) (priceHistory orc)
      in if length recentPrices < 2 then 0
         else (let returns = successiveReturns recentPrices;
                   mean = fold (\<lambda>b a. a + b) returns 0 / real (length returns);
                   variance = fold (\<lambda>r s. s + (r - mean) ^ 2) returns 0 / real (length returns);
                   stdDev = sqrt variance
               in stdDev * sqrt 3600 * 100))"

text \<open>\<open>calculateProbabilities\<close> returns \<open>{probUp, probDown, confidence}\<close>, here a triple
  in that order.\<close>

definition calculateProbabilities :: "BitcoinOracle \<Rightarrow> real \<Rightarrow> real \<Rightarrow> real \<times> real \<times> real" where
  "calculateProbabilities orc mom vol =
     (let momentumFactor = (mom + 1) / 2;
          volatilityFactor = max 0 (1 - (vol / 10));
          probUp0 = 0.5 + (momentumFactor - 0.5) * volatilityFactor;
          probUp1 = (if probUp0 > 0.8 then 0.8 + (probUp0 - 0.8) * 0.5 else probUp0);
          probUp2 = (if probUp1 < 0.2 then 0.2 - (0.2 - probUp1) * 0.5 else probUp1);
          probUp3 = max 0.05 (min 0.95 probUp2);
          probDown3 = 1 - probUp3;
          dataPoints = real (length (priceHistory orc));
          dataConfidence = min (dataPoints / 60) 1;
          sourceConfidence = min (real (card (activeSources orc)) / 2) 1;
          volatilityConfidence = max 0.3 (1 - vol / 20)
      in (probUp3, probDown3, dataConfidence * sourceConfidence * volatilityConfidence))"

definition getDefaultData :: "BitcoinOracle \<Rightarrow> real \<Rightarrow> OracleData" where
  "getDefaultData orc now =
     \<lparr>od_currentPrice = currentPrice orc, priceChange1m = 0, priceChange5m = 0,
      priceChange15m = 0, momentum = 0, volatility = 0, probUp = 0.5, probDown = 0.5,
      confidence = 0, od_timestamp = now, sources = {}\<rparr>"

definition getOracleData :: "BitcoinOracle \<Rightarrow> real \<Rightarrow> OracleData" where
  "getOracleData orc now =
     (if length (priceHistory orc) < 2 then getDefaultData orc now
      else (let current = currentPrice orc;
                price1mAgo = getPriceAtTime orc (now - 60000);
                price5mAgo = getPriceAtTime orc (now - 300000);
                price15mAgo = getPriceAtTime orc (now - 900000);
                change1m = (if price1mAgo > 0 then (current - price1mAgo) / price1mAgo else 0);
                change5m = (if price5mAgo > 0 then (current - price5mAgo) / price5mAgo else 0);
                change15m = (if price15mAgo > 0 then (current - price15mAgo) / price15mAgo else 0);
                mom = calculateMomentum orc now;
                vol = calculateVolatility orc now
            in case calculateProbabilities orc mom vol of
                 (pUp, pDown, conf) \<Rightarrow>
                   \<lparr>od_currentPrice = current, priceChange1m = change1m, priceChange5m = change5m,
                    priceChange15m = change15m, momentum = mom, volatility = vol, probUp = pUp,
                    probDown = pDown, confidence = conf, od_timestamp = now,
                    sources = activeSources orc\<rparr>))"

text \<open>The median as the specification names it: of an even number of values, the mean of
  the two in the middle.\<close>

definition spec_median :: "real list \<Rightarrow> real" where
  "spec_median xs =
     (let s = sort xs; n = length s
      in if even n then (s ! (n div 2 - 1) + s ! (n div 2)) / 2 else s ! (n div 2))"

text \<open>The prices of the sources that answered in a cycle, and the element of a list that
  \<open>fetchPrices\<close> picks: the one at index \<open>length div 2\<close> once sorted.\<close>

definition successfulPrices :: "real \<Rightarrow> (string \<Rightarrow> real option) \<Rightarrow> real list" where
  "successfulPrices ts fetch = map price (collectPrices ts fetch)"

definition upperMedian :: "real list \<Rightarrow> real" where
  "upperMedian xs = sort xs ! (length xs div 2)"

text \<open>Fetch cycles for the scenarios: three sources with one outlier, and two sources
  answering while the third fails.\<close>

definition fetch_outlier :: "string \<Rightarrow> real option" where
  "fetch_outlier name =
     (if name = ''binance'' then Some 100
      else if name = ''coinbase'' then Some 1000000
      else if name = ''kraken'' then Some 101
      else None)"

definition fetch_two :: "string \<Rightarrow> real option" where
  "fetch_two name =
     (if name = ''binance'' then Some 100
      else if name = ''coinbase'' then Some 102
      else None)"

definition fresh_oracle :: BitcoinOracle where
  "fresh_oracle = new_BitcoinOracle None None"

text \<open>An oracle after three fetch cycles one second apart.\<close>

definition warm_oracle :: BitcoinOracle where
  "warm_oracle =
     fetchPrices (fetchPrices (fetchPrices fresh_oracle 1000 fetch_outlier) 2000 fetch_two)
       3000 fetch_outlier"

section \<open>AutoTradingBot, the basic bot (source file part_001)\<close>

text \<open>
  The repository has two classes named \<open>AutoTradingBot\<close>. This is the one without order
  books; its names carry the prefix \<open>b_\<close> or the suffix \<open>_b\<close>. Of the class, the fields
  that opportunity detection and trade execution read or write are modelled. An
  outbound call made through \<open>rateLimiter.executeWithRetry\<close> is given by its final
  result, \<open>Inl\<close> the error it throws after its retries or \<open>Inr\<close> its value.
\<close>

record BalanceInfo =
  address :: string
  usdc :: real
  matic :: real

record OrderArgs =
  tokenID :: string
  order_price :: real
  order_size :: real
  order_side :: side

text \<open>What a bot does that reaches a collaborator, or its debug log, in order.\<close>

datatype bot_event =
    BalanceCheck
  | PlaceOrder OrderArgs
  | GetOpenOrders
  | DebugOracleStale real
  | DebugBookStale string
  | DebugSpreadTooHigh string real real
  | DebugInsufficientLiquidity string "warning list"
  | DebugSlippageTooHigh string jsnum

record PriceData_b =
  b_UP :: real
  b_DOWN :: real

record Trade_b =
  b_tokenType :: string
  b_tokenId :: string
  b_buyOrderId :: string
  b_takeProfitOrderId :: string
  b_stopLossOrderId :: string
  b_buyPrice :: real
  b_targetPrice :: real
  b_stopPrice :: real
  b_amount :: real
  b_timestamp :: real
  b_status :: string

record TradeOpportunity_b =
  bo_tokenType :: string
  bo_tokenId :: string
  bo_softwarePrice :: real
  bo_polymarketPrice :: real
  bo_difference :: real

record BasicBot =
  b_tokenIdUp :: "string option"
  b_tokenIdDown :: "string option"
  b_softwarePrices :: PriceData_b
  b_polymarketPrices :: "string \<rightharpoonup> real"
  b_activeTrades :: "Trade_b list"
  b_lastTradeTime :: real
  b_priceThreshold :: real
  b_stopLossAmount :: real
  b_takeProfitAmount :: real
  b_tradeCooldown :: real
  b_tradeAmount :: real
  b_minimumBalance :: real

text \<open>The state the constructor builds from an empty environment, once
  \<open>initializeMarket\<close> has found the two tokens.\<close>

definition new_BasicBot :: "string \<Rightarrow> string \<Rightarrow> BasicBot" where
  "new_BasicBot up down =
     \<lparr>b_tokenIdUp = Some up, b_tokenIdDown = Some down,
      b_softwarePrices = \<lparr>b_UP = 0, b_DOWN = 0\<rparr>,
      b_polymarketPrices = Map.empty, b_activeTrades = [], b_lastTradeTime = 0,
      b_priceThreshold = 0.015, b_stopLossAmount = 0.005, b_takeProfitAmount = 0.01,
      b_tradeCooldown = 30 * 1000, b_tradeAmount = 5.0, b_minimumBalance = 500.0\<rparr>"

text \<open>A message of the software oracle feed; a missing field reads as \<open>undefined\<close>, and
  \<open>message.prob_up || 0\<close> makes it 0.\<close>

record OracleMessage =
  prob_up :: "real option"
  prob_down :: "real option"

definition orZero :: "real option \<Rightarrow> real" where
  "orZero x = (case x of None \<Rightarrow> 0 | Some v \<Rightarrow> v)"

definition onSoftwareMessage_b :: "BasicBot \<Rightarrow> OracleMessage \<Rightarrow> BasicBot" where
  "onSoftwareMessage_b bt message =
     (let probUp = orZero (prob_up message);
          probDown = orZero (prob_down message)
      in bt\<lparr>b_softwarePrices := \<lparr>b_UP = probUp / 100.0, b_DOWN = probDown / 100.0\<rparr>\<rparr>)"

text \<open>One round of the loop over \<open>['UP', 'DOWN']\<close>: \<open>Some\<close> when it returns an
  opportunity, \<open>None\<close> when the loop goes on.\<close>

definition scanToken_b :: "BasicBot \<Rightarrow> string \<Rightarrow> TradeOpportunity_b option" where
  "scanToken_b bt tokType =
     (let softwarePrice = (if tokType = ''UP'' then b_UP (b_softwarePrices bt)
                           else b_DOWN (b_softwarePrices bt));
          tokenId = (if tokType = ''UP'' then b_tokenIdUp bt else b_tokenIdDown bt)
      in case tokenId of
           None \<Rightarrow> None
         | Some tid \<Rightarrow>
             if tid = [] then None
             else (let polyPrice = orZero (b_polymarketPrices bt tid);
                       diff = softwarePrice - polyPrice
                   in if diff \<ge> b_priceThreshold bt \<and> softwarePrice > 0 \<and> polyPrice > 0
                      then Some \<lparr>bo_tokenType = tokType, bo_tokenId = tid,
                                 bo_softwarePrice = softwarePrice, bo_polymarketPrice = polyPrice,
                                 bo_difference = diff\<rparr>
                      else None))"

fun scanTokens_b :: "BasicBot \<Rightarrow> string list \<Rightarrow> TradeOpportunity_b option" where
  "scanTokens_b bt [] = None"
| "scanTokens_b bt (tokType # rest) =
     (case scanToken_b bt tokType of
        Some opp \<Rightarrow> Some opp
      | None \<Rightarrow> scanTokens_b bt rest)"

text \<open>\<open>checkTradeOpportunity\<close> at clock reading \<open>now\<close>; \<open>balanceReply\<close> is the result of
  the balance call, should it be made. The result is what the promise settles to
  (\<open>Inl\<close> a rejection, \<open>Inr None\<close> for \<open>null\<close>) and the events.\<close>

definition checkTradeOpportunity_b ::
  "BasicBot \<Rightarrow> real \<Rightarrow> js_error + BalanceInfo
     \<Rightarrow> (js_error + TradeOpportunity_b option) \<times> bot_event list" where
  "checkTradeOpportunity_b bt now balanceReply =
     (let currentTime = now;
          remainingCooldown = b_tradeCooldown bt - (currentTime - b_lastTradeTime bt)
      in if remainingCooldown > 0 then (Inr None, [])
         else (case balanceReply of
                 Inl e \<Rightarrow> (Inl e, [BalanceCheck])
               | Inr balances \<Rightarrow>
                   if usdc balances < b_minimumBalance bt then (Inr None, [BalanceCheck])
                   else (Inr (scanTokens_b bt [''UP'', ''DOWN'']), [BalanceCheck])))"

text \<open>The results of the outbound calls of one trade execution.\<close>

record VenueReplies =
  buyReply :: "js_error + string"
  takeProfitReply :: "js_error + string"
  stopLossReply :: "js_error + string"
  openOrdersReply :: "js_error + string list"

text \<open>\<open>executeTrade\<close>, started at clock reading \<open>now\<close>; \<open>created\<close> is the clock when the
  trade record is built. A failed order is caught and logged, and ends the execution.
  An opportunity has a positive \<open>polymarketPrice\<close>, by which \<open>shares\<close> divides.\<close>

definition executeTrade_b ::
  "BasicBot \<Rightarrow> TradeOpportunity_b \<Rightarrow> real \<Rightarrow> real \<Rightarrow> VenueReplies \<Rightarrow> BasicBot \<times> bot_event list" where
  "executeTrade_b bt opportunity now created venue =
     (let bt1 = bt\<lparr>b_lastTradeTime := now\<rparr>;
          buyPrice = bo_polymarketPrice opportunity;
          shares = b_tradeAmount bt1 / buyPrice;
          buyOrder = \<lparr>tokenID = bo_tokenId opportunity, order_price = buyPrice * 1.01,
                      order_size = shares, order_side = BUY\<rparr>
      in case buyReply venue of
           Inl e \<Rightarrow> (bt1, [PlaceOrder buyOrder])
         | Inr buyOrderID \<Rightarrow>
             (let actualBuyPrice = buyPrice;
                  takeProfitPrice = min (actualBuyPrice + b_takeProfitAmount bt1) 0.99;
                  stopLossPrice = max (actualBuyPrice - b_stopLossAmount bt1) 0.01;
                  takeProfitOrder = \<lparr>tokenID = bo_tokenId opportunity, order_price = takeProfitPrice,
                                       order_size = shares, order_side = SELL\<rparr>;
                  stopLossOrder = \<lparr>tokenID = bo_tokenId opportunity, order_price = stopLossPrice,
                                     order_size = shares, order_side = SELL\<rparr>
              in case takeProfitReply venue of
                   Inl e \<Rightarrow> (bt1, [PlaceOrder buyOrder, PlaceOrder takeProfitOrder])
                 | Inr takeProfitOrderID \<Rightarrow>
                     (case stopLossReply venue of
                        Inl e \<Rightarrow>
                          (bt1, [PlaceOrder buyOrder, PlaceOrder takeProfitOrder,
                                  PlaceOrder stopLossOrder])
                      | Inr stopLossOrderID \<Rightarrow>
                          (bt1\<lparr>b_activeTrades := b_activeTrades bt1 @
                              [\<lparr>b_tokenType = bo_tokenType opportunity,
                                b_tokenId = bo_tokenId opportunity,
                                b_buyOrderId = buyOrderID,
                                b_takeProfitOrderId = takeProfitOrderID,
                                b_stopLossOrderId = stopLossOrderID,
                                b_buyPrice = actualBuyPrice,
                                b_targetPrice = takeProfitPrice,
                                b_stopPrice = stopLossPrice,
                                b_amount = b_tradeAmount bt1,
                                b_timestamp = created,
                                b_status = ''active''\<rparr>]\<rparr>,
                           [PlaceOrder buyOrder, PlaceOrder takeProfitOrder,
                            PlaceOrder stopLossOrder]))))"

text \<open>The end-to-end scenario on the basic bot: oracle \<open>UP = 0.75\<close>, market \<open>UP = 0.70\<close>,
  last trade at \<open>t0\<close>.\<close>

definition scenario_bot_b :: "real \<Rightarrow> BasicBot" where
  "scenario_bot_b t0 =
     (onSoftwareMessage_b (new_BasicBot ''tokenUp'' ''tokenDown'')
        \<lparr>prob_up = Some 75, prob_down = Some 25\<rparr>)
       \<lparr>b_polymarketPrices := [''tokenUp'' \<mapsto> 0.70, ''tokenDown'' \<mapsto> 0.30],
        b_lastTradeTime := t0\<rparr>"

definition rich :: BalanceInfo where
  "rich = \<lparr>address = ''0xabc'', usdc = 1000, matic = 1\<rparr>"

definition all_filled :: VenueReplies where
  "all_filled =
     \<lparr>buyReply = Inr ''buy1'', takeProfitReply = Inr ''tp1'', stopLossReply = Inr ''sl1'',
      openOrdersReply = Inr [''tp1'', ''sl1'']\<rparr>"

definition scenario_opportunity_b :: TradeOpportunity_b where
  "scenario_opportunity_b =
     \<lparr>bo_tokenType = ''UP'', bo_tokenId = ''tokenUp'', bo_softwarePrice = 0.75,
      bo_polymarketPrice = 0.70, bo_difference = 0.05\<rparr>"

section \<open>AutoTradingBot, the enhanced arbitrage bot (second module of src/allowance.ts)\<close>

record PriceData =
  UP :: real
  DOWN :: real
  pd_lastUpdate :: real

datatype trade_status = pending | filled | partial | closed | cancelled

record Trade =
  t_id :: string
  t_tokenType :: string
  t_tokenId :: string
  buyOrderId :: string
  takeProfitOrderId :: string
  stopLossOrderId :: string
  buyPrice :: real
  targetPrice :: real
  stopPrice :: real
  t_shares :: real
  amount :: real
  t_timestamp :: real
  status :: trade_status
  filledShares :: real
  t_exitReason :: "exit_reason option"

record TradeOpportunity =
  o_tokenType :: string
  o_tokenId :: string
  softwarePrice :: real
  polymarketPrice :: real
  difference :: real
  o_confidence :: real
  o_spread :: real
  liquidityScore :: real
  recommendedSize :: real

text \<open>The fields that detection, execution and closing read or write. A \<open>Trade\<close> is an
  object that \<open>activeTrades\<close> and the order monitor share and that closing mutates:
  \<open>heap\<close> maps a reference to the object, \<open>activeTrades\<close> holds references, and
  \<open>nextRef\<close> is the next unused reference.\<close>

record AutoTradingBot =
  tokenIdUp :: "string option"
  tokenIdDown :: "string option"
  softwarePrices :: PriceData
  polymarketPrices :: "string \<rightharpoonup> real"
  heap :: "nat \<rightharpoonup> Trade"
  nextRef :: nat
  activeTrades :: "nat list"
  lastTradeTime :: real
  pnlTracker :: PnLTracker
  orderBookTracker :: OrderBookTracker
  priceThreshold :: real
  stopLossAmount :: real
  takeProfitAmount :: real
  tradeCooldown :: real
  tradeAmount :: real
  minimumBalance :: real
  maxSlippage :: real
  maxSpread :: real
  priceStaleMs :: real
  enableDynamicSizing :: bool
  tradeCounter :: nat

text \<open>The state the constructor builds from an empty environment, once
  \<open>initializeMarket\<close> has found the two tokens.\<close>

definition new_AutoTradingBot :: "string \<Rightarrow> string \<Rightarrow> AutoTradingBot" where
  "new_AutoTradingBot up down =
     \<lparr>tokenIdUp = Some up, tokenIdDown = Some down,
      softwarePrices = \<lparr>UP = 0, DOWN = 0, pd_lastUpdate = 0\<rparr>,
      polymarketPrices = Map.empty, heap = Map.empty, nextRef = 0, activeTrades = [],
      lastTradeTime = 0, pnlTracker = new_PnLTracker,
      orderBookTracker = new_OrderBookTracker 10000 2.0 3.0,
      priceThreshold = 0.015, stopLossAmount = 0.005, takeProfitAmount = 0.01,
      tradeCooldown = 30 * 1000, tradeAmount = 5.0, minimumBalance = 500.0,
      maxSlippage = 0.01, maxSpread = 3.0, priceStaleMs = 10000,
      enableDynamicSizing = False, tradeCounter = 0\<rparr>"

definition onSoftwareMessage :: "AutoTradingBot \<Rightarrow> real \<Rightarrow> OracleMessage \<Rightarrow> AutoTradingBot" where
  "onSoftwareMessage bt now message =
     (let probUp = orZero (prob_up message);
          probDown = orZero (prob_down message)
      in bt\<lparr>softwarePrices :=
              \<lparr>UP = probUp / 100.0, DOWN = probDown / 100.0, pd_lastUpdate = now\<rparr>\<rparr>)"

text \<open>The divisors here are configuration values (\<open>priceThreshold\<close>, \<open>maxSpread\<close>,
  \<open>tradeAmount\<close>, \<open>priceStaleMs\<close>), taken to be positive as their defaults are; the
  non-finite score that a zero divisor would give is not modelled.\<close>

definition calculateConfidence :: "AutoTradingBot \<Rightarrow> real \<Rightarrow> real \<Rightarrow> real \<Rightarrow> real \<Rightarrow> real" where
  "calculateConfidence bt priceDiff spr liquidity oracleAge =
     (let diffFactor = min ((priceDiff - priceThreshold bt) / priceThreshold bt) 1;
          spreadFactor = max (1 - (spr / maxSpread bt)) 0;
          liquidityFactor = min (liquidity / (tradeAmount bt * 5)) 1;
          freshnessFactor = max (1 - (oracleAge / priceStaleMs bt)) 0
      in (diffFactor * 0.4) + (spreadFactor * 0.2) + (liquidityFactor * 0.2) + (freshnessFactor * 0.2))"

definition calculateDynamicSize :: "AutoTradingBot \<Rightarrow> real \<Rightarrow> real \<Rightarrow> real \<Rightarrow> real" where
  "calculateDynamicSize bt conf availableLiq balance =
     (let baseSize = tradeAmount bt;
          confidenceMultiplier = 0.5 + (conf * 1.5);
          maxByLiquidity = availableLiq / 3;
          maxByBalance = balance * 0.1
      in min (baseSize * confidenceMultiplier) (min maxByLiquidity (min maxByBalance (baseSize * 2))))"

text \<open>One round of the loop over \<open>['UP', 'DOWN']\<close>: \<open>Some\<close> when it returns an
  opportunity, \<open>None\<close> when it continues, with the debug lines it logs. \<open>bookNow\<close> is the
  clock that the order book tracker reads.\<close>

definition scanToken ::
  "AutoTradingBot \<Rightarrow> real \<Rightarrow> real \<Rightarrow> BalanceInfo \<Rightarrow> string \<Rightarrow> TradeOpportunity option \<times> bot_event list" where
  "scanToken bt bookNow oracleAge balances tokType =
     (let swPrice = (if tokType = ''UP'' then UP (softwarePrices bt) else DOWN (softwarePrices bt));
          tokId = (if tokType = ''UP'' then tokenIdUp bt else tokenIdDown bt)
      in case tokId of
           None \<Rightarrow> (None, [])
         | Some tid \<Rightarrow>
             if tid = [] then (None, [])
             else if isStale (orderBookTracker bt) bookNow tid then (None, [DebugBookStale tokType])
             else (let polyPrice = orZero (polymarketPrices bt tid);
                       diff = swPrice - polyPrice
                   in if diff < priceThreshold bt \<or> swPrice \<le> 0 \<or> polyPrice \<le> 0 then (None, [])
                      else (let sprPercent = snd (getSpread (orderBookTracker bt) tid)
                            in if sprPercent > maxSpread bt
                               then (None, [DebugSpreadTooHigh tokType sprPercent (maxSpread bt)])
                               else (let liquidityCheck =
                                           checkLiquidity (orderBookTracker bt) bookNow tid BUY (tradeAmount bt)
                                     in if \<not> sufficient liquidityCheck
                                        then (None, [DebugInsufficientLiquidity tokType (warnings liquidityCheck)])
                                        else if js_gt (estimatedSlippage liquidityCheck) (maxSlippage bt)
                                        then (None, [DebugSlippageTooHigh tokType (estimatedSlippage liquidityCheck)])
                                        else (let conf = calculateConfidence bt diff sprPercent
                                                           (availableLiquidity liquidityCheck) oracleAge;
                                                  recSize = (if enableDynamicSizing bt
                                                             then calculateDynamicSize bt conf
                                                                    (availableLiquidity liquidityCheck) (usdc balances)
                                                             else tradeAmount bt);
                                                  liqScore = min (availableLiquidity liquidityCheck / (tradeAmount bt * 5)) 1
                                              in (Some \<lparr>o_tokenType = tokType, o_tokenId = tid,
                                                         softwarePrice = swPrice, polymarketPrice = polyPrice,
                                                         difference = diff, o_confidence = conf,
                                                         o_spread = sprPercent, liquidityScore = liqScore,
                                                         recommendedSize = recSize\<rparr>, []))))))"

fun scanTokens ::
  "AutoTradingBot \<Rightarrow> real \<Rightarrow> real \<Rightarrow> BalanceInfo \<Rightarrow> string list \<Rightarrow> TradeOpportunity option \<times> bot_event list" where
  "scanTokens bt bookNow oracleAge balances [] = (None, [])"
| "scanTokens bt bookNow oracleAge balances (tokType # rest) =
     (case scanToken bt bookNow oracleAge balances tokType of
        (Some opp, evs) \<Rightarrow> (Some opp, evs)
      | (None, evs) \<Rightarrow>
          (case scanTokens bt bookNow oracleAge balances rest of
             (res, evs2) \<Rightarrow> (res, evs @ evs2)))"

text \<open>\<open>checkTradeOpportunity\<close> at clock reading \<open>now\<close>; \<open>bookNow\<close> is the clock once the
  balance call has returned and the order books are looked at.\<close>

definition checkTradeOpportunity ::
  "AutoTradingBot \<Rightarrow> real \<Rightarrow> real \<Rightarrow> js_error + BalanceInfo
     \<Rightarrow> (js_error + TradeOpportunity option) \<times> bot_event list" where
  "checkTradeOpportunity bt now bookNow balanceReply =
     (let currentTime = now;
          remainingCooldown = tradeCooldown bt - (currentTime - lastTradeTime bt)
      in if remainingCooldown > 0 then (Inr None, [])
         else (let oracleAge = currentTime - pd_lastUpdate (softwarePrices bt)
               in if oracleAge > priceStaleMs bt then (Inr None, [DebugOracleStale oracleAge])
                  else (case balanceReply of
                          Inl e \<Rightarrow> (Inl e, [BalanceCheck])
                        | Inr balances \<Rightarrow>
                            if usdc balances < minimumBalance bt then (Inr None, [BalanceCheck])
                            else (case scanTokens bt bookNow oracleAge balances [''UP'', ''DOWN''] of
                                    (res, evs) \<Rightarrow> (Inr res, BalanceCheck # evs)))))"

text \<open>A count written in decimal, for the template string of a trade id.\<close>

definition digitChar :: "nat \<Rightarrow> char" where
  "digitChar d = ''0123456789'' ! d"

fun decimal :: "nat \<Rightarrow> string" where
  "decimal n =
     (if n div 10 = 0 then [digitChar n]
      else decimal (n div 10) @ [digitChar (n mod 10)])"

declare decimal.simps [simp del]

text \<open>\<open>checkOrderStatus\<close>: the open orders are listed through the rate limiter; a failure
  is caught.\<close>

definition checkOrderStatus :: "js_error + string list \<Rightarrow> string \<Rightarrow> string" where
  "checkOrderStatus reply orderId =
     (case reply of
        Inl e \<Rightarrow> ''UNKNOWN''
      | Inr orders \<Rightarrow> if orderId \<in> set orders then ''OPEN'' else ''FILLED_OR_CANCELLED'')"

text \<open>\<open>executeTrade\<close>, started at clock reading \<open>now\<close>; \<open>created\<close> is the clock when the
  trade object is built. A failed order is caught and logged, and ends the execution.
  An opportunity has a positive \<open>polymarketPrice\<close>, by which \<open>shares\<close> divides.\<close>

definition executeTrade ::
  "AutoTradingBot \<Rightarrow> TradeOpportunity \<Rightarrow> real \<Rightarrow> real \<Rightarrow> VenueReplies \<Rightarrow> AutoTradingBot \<times> bot_event list" where
  "executeTrade bt opportunity now created venue =
     (let bt1 = bt\<lparr>lastTradeTime := now, tradeCounter := tradeCounter bt + 1\<rparr>;
          tradeIdent = ''trade_'' @ decimal (tradeCounter bt1) @ ''_'' @ decimal (nat \<lfloor>now\<rfloor>);
          buyPrice1 = polymarketPrice opportunity;
          tradeSize = recommendedSize opportunity;
          shares1 = tradeSize / buyPrice1;
          buyOrder = \<lparr>tokenID = o_tokenId opportunity, order_price = buyPrice1 * 1.01,
                      order_size = shares1, order_side = BUY\<rparr>
      in case buyReply venue of
           Inl e \<Rightarrow> (bt1, [PlaceOrder buyOrder])
         | Inr buyOrderID \<Rightarrow>
             (let filled1 = shares1;
                  orderStatus = checkOrderStatus (openOrdersReply venue) buyOrderID
              in if orderStatus = ''CANCELLED'' \<or> orderStatus = ''EXPIRED''
                 then (bt1, [PlaceOrder buyOrder, GetOpenOrders])
                 else
                   (let actualBuyPrice = buyPrice1;
                        takeProfitPrice = min (actualBuyPrice + takeProfitAmount bt1) 0.99;
                        stopLossPrice = max (actualBuyPrice - stopLossAmount bt1) 0.01;
                        takeProfitOrder = \<lparr>tokenID = o_tokenId opportunity, order_price = takeProfitPrice,
                                             order_size = filled1, order_side = SELL\<rparr>;
                        stopLossOrder = \<lparr>tokenID = o_tokenId opportunity, order_price = stopLossPrice,
                                           order_size = filled1, order_side = SELL\<rparr>
                    in case takeProfitReply venue of
                         Inl e \<Rightarrow> (bt1, [PlaceOrder buyOrder, GetOpenOrders, PlaceOrder takeProfitOrder])
                       | Inr takeProfitOrderID \<Rightarrow>
                           (case stopLossReply venue of
                              Inl e \<Rightarrow>
                                (bt1, [PlaceOrder buyOrder, GetOpenOrders, PlaceOrder takeProfitOrder,
                                       PlaceOrder stopLossOrder])
                            | Inr stopLossOrderID \<Rightarrow>
                                (bt1\<lparr>heap := (heap bt1)(nextRef bt1 \<mapsto>
                                         \<lparr>t_id = tradeIdent,
                                          t_tokenType = o_tokenType opportunity,
                                          t_tokenId = o_tokenId opportunity,
                                          buyOrderId = buyOrderID,
                                          takeProfitOrderId = takeProfitOrderID,
                                          stopLossOrderId = stopLossOrderID,
                                          buyPrice = actualBuyPrice,
                                          targetPrice = takeProfitPrice,
                                          stopPrice = stopLossPrice,
                                          t_shares = filled1,
                                          amount = tradeSize,
                                          t_timestamp = created,
                                          status = filled,
                                          filledShares = filled1,
                                          t_exitReason = None\<rparr>),
                                      nextRef := nextRef bt1 + 1,
                                      activeTrades := activeTrades bt1 @ [nextRef bt1]\<rparr>,
                                 [PlaceOrder buyOrder, GetOpenOrders, PlaceOrder takeProfitOrder,
                                  PlaceOrder stopLossOrder])))))"

text \<open>\<open>recordTradeClose\<close> on the trade object behind \<open>ref\<close>, at clock reading \<open>now\<close>. The
  statistics display after every tenth trade only logs.\<close>

definition recordTradeClose :: "AutoTradingBot \<Rightarrow> nat \<Rightarrow> exit_reason \<Rightarrow> real \<Rightarrow> AutoTradingBot" where
  "recordTradeClose bt ref reason now =
     (case heap bt ref of
        None \<Rightarrow> bt
      | Some trade \<Rightarrow>
          if status trade = closed then bt
          else (let exitPrice1 = (if reason = take_profit then targetPrice trade else stopPrice trade);
                    pnl1 = (exitPrice1 - buyPrice trade) * t_shares trade;
                    pnlPercent1 = js_mul (js_div (exitPrice1 - buyPrice trade) (buyPrice trade)) 100;
                    result = \<lparr>tradeId = t_id trade, tokenType = t_tokenType trade,
                              entryPrice = buyPrice trade, exitPrice = exitPrice1,
                              shares = t_shares trade, pnl = pnl1, pnlPercent = pnlPercent1,
                              exitReason = reason, entryTime = t_timestamp trade, exitTime = now,
                              holdingTimeMs = now - t_timestamp trade\<rparr>
                in bt\<lparr>pnlTracker := recordTrade (pnlTracker bt) result,
                       heap := (heap bt)(ref \<mapsto> trade\<lparr>status := closed, t_exitReason := Some reason\<rparr>)\<rparr>))"

text \<open>The end-to-end scenario on the enhanced bot: oracle \<open>UP = 0.75\<close> received at
  \<open>t0 + 30000\<close>, a book for the UP token with bid \<open>(0.69, 100)\<close> and ask \<open>(0.71, 100)\<close>
  stored at the same time, market \<open>UP = 0.70\<close>, last trade at \<open>t0\<close>.\<close>

definition scenario_bot :: "real \<Rightarrow> AutoTradingBot" where
  "scenario_bot t0 =
     (onSoftwareMessage (new_AutoTradingBot ''tokenUp'' ''tokenDown'') (t0 + 30000)
        \<lparr>prob_up = Some 75, prob_down = Some 25\<rparr>)
       \<lparr>polymarketPrices := [''tokenUp'' \<mapsto> 0.70],
        orderBookTracker :=
          updateOrderBook (new_OrderBookTracker 10000 2.0 3.0) (t0 + 30000) ''tokenUp''
            [\<lparr>level_price = 0.69, level_size = 100\<rparr>] [\<lparr>level_price = 0.71, level_size = 100\<rparr>],
        lastTradeTime := t0\<rparr>"

definition scenario_opportunity :: TradeOpportunity where
  "scenario_opportunity =
     \<lparr>o_tokenType = ''UP'', o_tokenId = ''tokenUp'', softwarePrice = 0.75,
      polymarketPrice = 0.70, difference = 0.05, o_confidence = 829 / 1050,
      o_spread = 20 / 7, liquidityScore = 1, recommendedSize = 5\<rparr>"

section \<open>Properties of the oracle\<close>

lemma calculateProbabilities_range:
  "0.05 \<le> fst (calculateProbabilities orc m v) \<and> fst (calculateProbabilities orc m v) \<le> 0.95 \<and>
   fst (calculateProbabilities orc m v) + fst (snd (calculateProbabilities orc m v)) = 1"
proof -
  have lower: "0.05 \<le> max 0.05 (min 0.95 x)" and upper: "max 0.05 (min 0.95 x) \<le> 0.95"
    and total: "x + (1 - x) = 1" for x :: real
    by (simp_all add: max_def min_def)
  show ?thesis
    unfolding calculateProbabilities_def Let_def fst_conv snd_conv
    by (intro conjI lower upper total)
qed

lemma getOracleData_computed:
  assumes "\<not> length (priceHistory orc) < 2"
  shows "probUp (getOracleData orc now)
           = fst (calculateProbabilities orc (calculateMomentum orc now) (calculateVolatility orc now))"
    and "probDown (getOracleData orc now)
           = fst (snd (calculateProbabilities orc (calculateMomentum orc now) (calculateVolatility orc now)))"
proof -
  obtain pUp pDown conf where p:
    "calculateProbabilities orc (calculateMomentum orc now) (calculateVolatility orc now)
       = (pUp, pDown, conf)"
    by (cases "calculateProbabilities orc (calculateMomentum orc now) (calculateVolatility orc now)")
  have "getOracleData orc now =
      (let current = currentPrice orc;
                price1mAgo = getPriceAtTime orc (now - 60000);
                price5mAgo = getPriceAtTime orc (now - 300000);
                price15mAgo = getPriceAtTime orc (now - 900000);
                change1m = (if price1mAgo > 0 then (current - price1mAgo) / price1mAgo else 0);
                change5m = (if price5mAgo > 0 then (current - price5mAgo) / price5mAgo else 0);
                change15m = (if price15mAgo > 0 then (current - price15mAgo) / price15mAgo else 0);
                mom = calculateMomentum orc now;
                vol = calculateVolatility orc now
            in case calculateProbabilities orc mom vol of
                 (pUp, pDown, conf) \<Rightarrow>
                   \<lparr>od_currentPrice = current, priceChange1m = change1m, priceChange5m = change5m,
                    priceChange15m = change15m, momentum = mom, volatility = vol, probUp = pUp,
                    probDown = pDown, confidence = conf, od_timestamp = now,
                    sources = activeSources orc\<rparr>)"
    using assms unfolding getOracleData_def by (simp only: if_False)
  then have "probUp (getOracleData orc now) = pUp \<and> probDown (getOracleData orc now) = pDown"
    unfolding Let_def p prod.case by (simp only: OracleData.select_convs simp_thms)
  then show "probUp (getOracleData orc now)
           = fst (calculateProbabilities orc (calculateMomentum orc now) (calculateVolatility orc now))"
    and "probDown (getOracleData orc now)
           = fst (snd (calculateProbabilities orc (calculateMomentum orc now) (calculateVolatility orc now)))"
    by (simp_all only: p fst_conv snd_conv)
qed

lemma getOracleData_range:
  "0.05 \<le> probUp (getOracleData orc now) \<and> probUp (getOracleData orc now) \<le> 0.95 \<and>
   probUp (getOracleData orc now) + probDown (getOracleData orc now) = 1"
proof (cases "length (priceHistory orc) < 2")
  case True
  then show ?thesis
    by (simp add: getOracleData_def getDefaultData_def)
next
  case False
  show ?thesis
    unfolding getOracleData_computed [OF False]
    by (rule calculateProbabilities_range)
qed

lemma collectPrices_outlier:
  "collectPrices ts fetch_outlier =
     [\<lparr>price = 100, timestamp = ts, source = ''binance''\<rparr>,
      \<lparr>price = 1000000, timestamp = ts, source = ''coinbase''\<rparr>,
      \<lparr>price = 101, timestamp = ts, source = ''kraken''\<rparr>]"
  by (simp add: collectPrices_def fetchOne_def exchangeNames_def fetch_outlier_def
      List.map_filter_simps)

lemma collectPrices_two:
  "collectPrices ts fetch_two =
     [\<lparr>price = 100, timestamp = ts, source = ''binance''\<rparr>,
      \<lparr>price = 102, timestamp = ts, source = ''coinbase''\<rparr>]"
  by (simp add: collectPrices_def fetchOne_def exchangeNames_def fetch_two_def
      List.map_filter_simps)

lemma successfulPrices_outlier: "successfulPrices ts fetch_outlier = [100, 1000000, 101]"
  by (simp add: successfulPrices_def collectPrices_outlier)

lemma successfulPrices_two: "successfulPrices ts fetch_two = [100, 102]"
  by (simp add: successfulPrices_def collectPrices_two)

lemma upperMedian_outlier: "upperMedian [100, 1000000, 101] = 101"
  by (simp add: upperMedian_def)

lemma upperMedian_two: "upperMedian [100, 102] = 102"
  by (simp add: upperMedian_def)

text \<open>What a fetch cycle with at least one answer does to the history and the price.\<close>

lemma fetchPrices_success:
  fixes orc :: BitcoinOracle and ts :: real and fetch :: "string \<Rightarrow> real option"
  defines "h \<equiv> priceHistory orc @
     [\<lparr>price = upperMedian (successfulPrices ts fetch), timestamp = ts, source = ''median''\<rparr>]"
  assumes "collectPrices ts fetch \<noteq> []"
  shows "priceHistory (fetchPrices orc ts fetch)
           = (if length h > maxHistorySize orc then sliceLast h (maxHistorySize orc) else h)"
    and "currentPrice (fetchPrices orc ts fetch) = upperMedian (successfulPrices ts fetch)"
    and "maxHistorySize (fetchPrices orc ts fetch) = maxHistorySize orc"
  using assms(2) unfolding h_def upperMedian_def successfulPrices_def fetchPrices_def Let_def
  by simp_all

lemma last_sliceLast: "xs \<noteq> [] \<Longrightarrow> length xs > n \<Longrightarrow> last (sliceLast xs n) = last xs"
  by (cases "n = 0") (simp_all add: sliceLast_def)

lemma sliceLast_nonempty: "xs \<noteq> [] \<Longrightarrow> length xs > n \<Longrightarrow> sliceLast xs n \<noteq> []"
  by (cases "n = 0") (auto simp: sliceLast_def)

lemma fetchPrices_last:
  assumes "collectPrices ts fetch \<noteq> []"
  shows "priceHistory (fetchPrices orc ts fetch) \<noteq> [] \<and>
         last (priceHistory (fetchPrices orc ts fetch)) =
           \<lparr>price = upperMedian (successfulPrices ts fetch), timestamp = ts, source = ''median''\<rparr>"
proof -
  define h where "h = priceHistory orc @
     [\<lparr>price = upperMedian (successfulPrices ts fetch), timestamp = ts, source = ''median''\<rparr>]"
  have h: "h \<noteq> []" by (simp add: h_def)
  have hist: "priceHistory (fetchPrices orc ts fetch)
           = (if length h > maxHistorySize orc then sliceLast h (maxHistorySize orc) else h)"
    unfolding h_def using fetchPrices_success(1) [OF assms, of orc] by simp
  have "last h = \<lparr>price = upperMedian (successfulPrices ts fetch), timestamp = ts,
      source = ''median''\<rparr>"
    by (simp add: h_def)
  then show ?thesis
    using h sliceLast_nonempty [OF h, of "maxHistorySize orc"]
      last_sliceLast [OF h, of "maxHistorySize orc"]
    by (simp add: hist)
qed

lemma fetch_step:
  assumes "collectPrices ts fetch \<noteq> []"
    and "upperMedian (successfulPrices ts fetch) = m"
    and "maxHistorySize orc = 1000" and "length (priceHistory orc) < 10"
  shows "priceHistory (fetchPrices orc ts fetch)
           = priceHistory orc @ [\<lparr>price = m, timestamp = ts, source = ''median''\<rparr>]"
    and "maxHistorySize (fetchPrices orc ts fetch) = 1000"
  using fetchPrices_success(1,3) [OF assms(1), of orc] assms(2-4) by simp_all

lemma warm_oracle_history:
  "priceHistory warm_oracle =
     [\<lparr>price = 101, timestamp = 1000, source = ''median''\<rparr>,
      \<lparr>price = 102, timestamp = 2000, source = ''median''\<rparr>,
      \<lparr>price = 101, timestamp = 3000, source = ''median''\<rparr>]"
proof -
  have c1: "collectPrices ts fetch_outlier \<noteq> []" and c2: "collectPrices ts fetch_two \<noteq> []" for ts
    by (simp_all add: collectPrices_outlier collectPrices_two)
  have u1: "upperMedian (successfulPrices ts fetch_outlier) = 101"
    and u2: "upperMedian (successfulPrices ts fetch_two) = 102" for ts
    by (simp_all only: successfulPrices_outlier successfulPrices_two upperMedian_outlier upperMedian_two)
  have fresh: "maxHistorySize fresh_oracle = 1000" "priceHistory fresh_oracle = []"
    by (simp_all add: fresh_oracle_def new_BitcoinOracle_def)
  note s1 = fetch_step [OF c1 u1, of fresh_oracle 1000]
  have h1: "priceHistory (fetchPrices fresh_oracle 1000 fetch_outlier)
       = [\<lparr>price = 101, timestamp = 1000, source = ''median''\<rparr>]"
    and m1: "maxHistorySize (fetchPrices fresh_oracle 1000 fetch_outlier) = 1000"
    using s1 fresh by simp_all
  note s2 = fetch_step [OF c2 u2 m1, of 2000]
  have h2: "priceHistory (fetchPrices (fetchPrices fresh_oracle 1000 fetch_outlier) 2000 fetch_two)
       = [\<lparr>price = 101, timestamp = 1000, source = ''median''\<rparr>,
          \<lparr>price = 102, timestamp = 2000, source = ''median''\<rparr>]"
    and m2: "maxHistorySize (fetchPrices (fetchPrices fresh_oracle 1000 fetch_outlier) 2000 fetch_two) = 1000"
    using s2 h1 by simp_all
  note s3 = fetch_step [OF c1 u1 m2, of 3000]
  show ?thesis
    unfolding warm_oracle_def using s3 h2 by simp
qed

text \<open>
  C1. For any oracle state and any momentum and volatility, \<open>calculateProbabilities\<close>
  returns \<open>probUp\<close> in \<open>[0.05, 0.95]\<close> and \<open>probUp + probDown = 1\<close>; and every snapshot
  \<open>getOracleData\<close> computes from a history of positive prices, at any time, has
  \<open>probUp\<close> in \<open>[0.05, 0.95]\<close> and \<open>probUp + probDown = 1\<close>.
\<close>

theorem probUp_range_and_sum:
  "(0.05 \<le> fst (calculateProbabilities orc m v) \<and> fst (calculateProbabilities orc m v) \<le> 0.95 \<and>
    fst (calculateProbabilities orc m v) + fst (snd (calculateProbabilities orc m v)) = 1) \<and>
   ((\<forall>p \<in> set (priceHistory orc). price p > 0) \<longrightarrow>
      0.05 \<le> probUp (getOracleData orc now) \<and> probUp (getOracleData orc now) \<le> 0.95 \<and>
      probUp (getOracleData orc now) + probDown (getOracleData orc now) = 1)"
  using calculateProbabilities_range [of orc m v] getOracleData_range [of orc now] by simp

theorem probUp_range_and_sum_witness:
  "list_all (\<lambda>p. price p > 0) (priceHistory warm_oracle) \<and>
   \<not> length (priceHistory warm_oracle) < 2 \<and>
   0.05 \<le> probUp (getOracleData warm_oracle 3500) \<and>
   probUp (getOracleData warm_oracle 3500) \<le> 0.95 \<and>
   probUp (getOracleData warm_oracle 3500) + probDown (getOracleData warm_oracle 3500) = 1 \<and>
   fst (calculateProbabilities warm_oracle 1 0) = 0.9 \<and>
   fst (snd (calculateProbabilities warm_oracle 1 0)) = 0.1 \<and>
   fst (calculateProbabilities warm_oracle (- 1) 0) = 0.1 \<and>
   fst (calculateProbabilities warm_oracle 1 100) = 0.5"
proof -
  have positive: "\<forall>p \<in> set (priceHistory warm_oracle). price p > 0"
    by (simp add: warm_oracle_history)
  have computed: "fst (calculateProbabilities warm_oracle 1 0) = 0.9 \<and>
      fst (snd (calculateProbabilities warm_oracle 1 0)) = 0.1 \<and>
      fst (calculateProbabilities warm_oracle (- 1) 0) = 0.1 \<and>
      fst (calculateProbabilities warm_oracle 1 100) = 0.5"
    unfolding calculateProbabilities_def Let_def fst_conv snd_conv by simp
  have listed: "list_all (\<lambda>p. price p > 0) (priceHistory warm_oracle)"
    by (simp add: warm_oracle_history)
  have long: "\<not> length (priceHistory warm_oracle) < 2"
    by (simp add: warm_oracle_history)
  show ?thesis
    using positive listed long computed probUp_range_and_sum [of warm_oracle 1 0 3500]
    by simp
qed

text \<open>In a cycle with an odd number of answers the appended price is their median.\<close>

lemma fetchPrices_odd_count_median:
  assumes "odd (length (successfulPrices ts fetch))"
  shows "price (last (priceHistory (fetchPrices orc ts fetch))) = spec_median (successfulPrices ts fetch)"
proof -
  have "collectPrices ts fetch \<noteq> []"
    using assms by (auto simp: successfulPrices_def)
  from fetchPrices_last [OF this, of orc]
  have "price (last (priceHistory (fetchPrices orc ts fetch))) = upperMedian (successfulPrices ts fetch)"
    by simp
  also have "\<dots> = spec_median (successfulPrices ts fetch)"
    using assms by (simp add: spec_median_def upperMedian_def Let_def)
  finally show ?thesis .
qed

text \<open>
  C2. The aggregate price of a fetch cycle is meant to be the median of the successful
  prices: the source comments its computation as the median price, names the value
  \<open>medianPrice\<close> and tags the appended point \<open>median\<close>. For the prices 100, 101 and
  1000000 the appended price is 101, their median. When two sources answer 100 and 102
  and the third fails, \<open>fetchPrices\<close> appends 102, the entry at index
  \<open>floor (2 / 2) = 1\<close> of the sorted prices, while their median is 101: the cycle with
  an even number of answers does not get the median.
\<close>

theorem fetchPrices_even_count_not_median:
  "successfulPrices 1000 fetch_outlier = [100, 1000000, 101] \<and>
   price (last (priceHistory (fetchPrices fresh_oracle 1000 fetch_outlier))) = 101 \<and>
   spec_median (successfulPrices 1000 fetch_outlier) = 101 \<and>
   collectPrices 1000 fetch_two \<noteq> [] \<and>
   successfulPrices 1000 fetch_two = [100, 102] \<and>
   last (priceHistory (fetchPrices fresh_oracle 1000 fetch_two))
     = \<lparr>price = 102, timestamp = 1000, source = ''median''\<rparr> \<and>
   currentPrice (fetchPrices fresh_oracle 1000 fetch_two) = 102 \<and>
   spec_median (successfulPrices 1000 fetch_two) = 101 \<and>
   price (last (priceHistory (fetchPrices fresh_oracle 1000 fetch_two)))
     \<noteq> spec_median (successfulPrices 1000 fetch_two)"
proof -
  have outlier: "collectPrices 1000 fetch_outlier \<noteq> []"
    by (simp add: collectPrices_outlier)
  have two: "collectPrices 1000 fetch_two \<noteq> []"
    by (simp add: collectPrices_two)
  have appended_outlier: "price (last (priceHistory (fetchPrices fresh_oracle 1000 fetch_outlier))) = 101"
    using fetchPrices_last [OF outlier, of fresh_oracle]
    by (simp only: successfulPrices_outlier upperMedian_outlier PricePoint.select_convs)
  have median_outlier: "spec_median (successfulPrices 1000 fetch_outlier) = 101"
    by (simp add: successfulPrices_outlier spec_median_def)
  have appended: "last (priceHistory (fetchPrices fresh_oracle 1000 fetch_two))
      = \<lparr>price = 102, timestamp = 1000, source = ''median''\<rparr>"
    using fetchPrices_last [OF two, of fresh_oracle]
    by (simp only: successfulPrices_two upperMedian_two)
  have current: "currentPrice (fetchPrices fresh_oracle 1000 fetch_two) = 102"
    using fetchPrices_success(2) [OF two, of fresh_oracle]
    by (simp only: successfulPrices_two upperMedian_two)
  have median: "spec_median (successfulPrices 1000 fetch_two) = 101"
    by (simp add: successfulPrices_two spec_median_def)
  show ?thesis
    using two appended_outlier median_outlier appended current median
      successfulPrices_outlier [of 1000] successfulPrices_two [of 1000]
    by simp
qed

section \<open>Properties of trade execution\<close>

lemma checkOrderStatus_not_aborting:
  "checkOrderStatus reply orderId \<noteq> ''CANCELLED'' \<and> checkOrderStatus reply orderId \<noteq> ''EXPIRED''"
  by (simp add: checkOrderStatus_def split: sum.splits)

lemma executeTrade_b_filled:
  assumes "buyReply venue = Inr buyId" and "takeProfitReply venue = Inr tpId"
    and "stopLossReply venue = Inr slId"
  shows "executeTrade_b bt opp now created venue =
     (bt\<lparr>b_lastTradeTime := now,
         b_activeTrades := b_activeTrades bt @
           [\<lparr>b_tokenType = bo_tokenType opp, b_tokenId = bo_tokenId opp, b_buyOrderId = buyId,
             b_takeProfitOrderId = tpId, b_stopLossOrderId = slId,
             b_buyPrice = bo_polymarketPrice opp,
             b_targetPrice = min (bo_polymarketPrice opp + b_takeProfitAmount bt) 0.99,
             b_stopPrice = max (bo_polymarketPrice opp - b_stopLossAmount bt) 0.01,
             b_amount = b_tradeAmount bt, b_timestamp = created, b_status = ''active''\<rparr>]\<rparr>,
      [PlaceOrder \<lparr>tokenID = bo_tokenId opp, order_price = bo_polymarketPrice opp * 1.01,
                   order_size = b_tradeAmount bt / bo_polymarketPrice opp, order_side = BUY\<rparr>,
       PlaceOrder \<lparr>tokenID = bo_tokenId opp,
                   order_price = min (bo_polymarketPrice opp + b_takeProfitAmount bt) 0.99,
                   order_size = b_tradeAmount bt / bo_polymarketPrice opp, order_side = SELL\<rparr>,
       PlaceOrder \<lparr>tokenID = bo_tokenId opp,
                   order_price = max (bo_polymarketPrice opp - b_stopLossAmount bt) 0.01,
                   order_size = b_tradeAmount bt / bo_polymarketPrice opp, order_side = SELL\<rparr>])"
  using assms by (simp add: executeTrade_b_def Let_def)

lemma executeTrade_filled:
  assumes "buyReply venue = Inr buyId" and "takeProfitReply venue = Inr tpId"
    and "stopLossReply venue = Inr slId"
  shows "snd (executeTrade bt opp now created venue) =
      [PlaceOrder \<lparr>tokenID = o_tokenId opp, order_price = polymarketPrice opp * 1.01,
                   order_size = recommendedSize opp / polymarketPrice opp, order_side = BUY\<rparr>,
       GetOpenOrders,
       PlaceOrder \<lparr>tokenID = o_tokenId opp,
                   order_price = min (polymarketPrice opp + takeProfitAmount bt) 0.99,
                   order_size = recommendedSize opp / polymarketPrice opp, order_side = SELL\<rparr>,
       PlaceOrder \<lparr>tokenID = o_tokenId opp,
                   order_price = max (polymarketPrice opp - stopLossAmount bt) 0.01,
                   order_size = recommendedSize opp / polymarketPrice opp, order_side = SELL\<rparr>]"
    and "heap (fst (executeTrade bt opp now created venue)) (nextRef bt) =
      Some \<lparr>t_id = ''trade_'' @ decimal (tradeCounter bt + 1) @ ''_'' @ decimal (nat \<lfloor>now\<rfloor>),
            t_tokenType = o_tokenType opp, t_tokenId = o_tokenId opp, buyOrderId = buyId,
            takeProfitOrderId = tpId, stopLossOrderId = slId,
            buyPrice = polymarketPrice opp,
            targetPrice = min (polymarketPrice opp + takeProfitAmount bt) 0.99,
            stopPrice = max (polymarketPrice opp - stopLossAmount bt) 0.01,
            t_shares = recommendedSize opp / polymarketPrice opp,
            amount = recommendedSize opp, t_timestamp = created, status = filled,
            filledShares = recommendedSize opp / polymarketPrice opp, t_exitReason = None\<rparr>"
    and "activeTrades (fst (executeTrade bt opp now created venue)) = activeTrades bt @ [nextRef bt]"
    and "pnlTracker (fst (executeTrade bt opp now created venue)) = pnlTracker bt"
  using assms checkOrderStatus_not_aborting [of "openOrdersReply venue" buyId]
  by (simp_all add: executeTrade_def Let_def)

text \<open>
  C3. When the three orders of a trade are accepted, with market price \<open>p > 0\<close>, notional
  \<open>N\<close> (the configured trade amount in the basic bot, the recommended size in the enhanced
  one), take-profit offset \<open>tp\<close> and stop-loss offset \<open>sl\<close>: the entry order is a buy of
  \<open>N / p\<close> shares at \<open>p * 1.01\<close>, the exits sell the same shares at \<open>min (p + tp) 0.99\<close>
  and \<open>max (p - sl) 0.01\<close>, and the recorded trade carries these prices. For \<open>p = 0.70\<close>,
  \<open>tp = 0.01\<close>, \<open>sl = 0.005\<close> the three prices are 0.707, 0.71 and 0.695.
\<close>

theorem executeTrade_entry_and_exits:
  assumes "buyReply venue = Inr buyId" and "takeProfitReply venue = Inr tpId"
    and "stopLossReply venue = Inr slId"
    and "bo_polymarketPrice opp > 0" and "polymarketPrice eopp > 0"
  shows "snd (executeTrade_b bb opp now created venue) =
      [PlaceOrder \<lparr>tokenID = bo_tokenId opp, order_price = bo_polymarketPrice opp * 1.01,
                   order_size = b_tradeAmount bb / bo_polymarketPrice opp, order_side = BUY\<rparr>,
       PlaceOrder \<lparr>tokenID = bo_tokenId opp,
                   order_price = min (bo_polymarketPrice opp + b_takeProfitAmount bb) 0.99,
                   order_size = b_tradeAmount bb / bo_polymarketPrice opp, order_side = SELL\<rparr>,
       PlaceOrder \<lparr>tokenID = bo_tokenId opp,
                   order_price = max (bo_polymarketPrice opp - b_stopLossAmount bb) 0.01,
                   order_size = b_tradeAmount bb / bo_polymarketPrice opp, order_side = SELL\<rparr>] \<and>
    b_activeTrades (fst (executeTrade_b bb opp now created venue)) = b_activeTrades bb @
           [\<lparr>b_tokenType = bo_tokenType opp, b_tokenId = bo_tokenId opp, b_buyOrderId = buyId,
             b_takeProfitOrderId = tpId, b_stopLossOrderId = slId,
             b_buyPrice = bo_polymarketPrice opp,
             b_targetPrice = min (bo_polymarketPrice opp + b_takeProfitAmount bb) 0.99,
             b_stopPrice = max (bo_polymarketPrice opp - b_stopLossAmount bb) 0.01,
             b_amount = b_tradeAmount bb, b_timestamp = created, b_status = ''active''\<rparr>] \<and>
    snd (executeTrade bt eopp now created venue) =
      [PlaceOrder \<lparr>tokenID = o_tokenId eopp, order_price = polymarketPrice eopp * 1.01,
                   order_size = recommendedSize eopp / polymarketPrice eopp, order_side = BUY\<rparr>,
       GetOpenOrders,
       PlaceOrder \<lparr>tokenID = o_tokenId eopp,
                   order_price = min (polymarketPrice eopp + takeProfitAmount bt) 0.99,
                   order_size = recommendedSize eopp / polymarketPrice eopp, order_side = SELL\<rparr>,
       PlaceOrder \<lparr>tokenID = o_tokenId eopp,
                   order_price = max (polymarketPrice eopp - stopLossAmount bt) 0.01,
                   order_size = recommendedSize eopp / polymarketPrice eopp, order_side = SELL\<rparr>] \<and>
    map_option (\<lambda>t. (buyPrice t, targetPrice t, stopPrice t, t_shares t, amount t))
        (heap (fst (executeTrade bt eopp now created venue)) (nextRef bt)) =
      Some (polymarketPrice eopp,
            min (polymarketPrice eopp + takeProfitAmount bt) 0.99,
            max (polymarketPrice eopp - stopLossAmount bt) 0.01,
            recommendedSize eopp / polymarketPrice eopp, recommendedSize eopp) \<and>
    snd (executeTrade_b (scenario_bot_b t0) scenario_opportunity_b now created all_filled) =
      [PlaceOrder \<lparr>tokenID = ''tokenUp'', order_price = 0.707, order_size = 50 / 7, order_side = BUY\<rparr>,
       PlaceOrder \<lparr>tokenID = ''tokenUp'', order_price = 0.71, order_size = 50 / 7, order_side = SELL\<rparr>,
       PlaceOrder \<lparr>tokenID = ''tokenUp'', order_price = 0.695, order_size = 50 / 7, order_side = SELL\<rparr>]"
proof -
  have basic: "b_tradeAmount (scenario_bot_b t0) = 5" "b_takeProfitAmount (scenario_bot_b t0) = 0.01"
    "b_stopLossAmount (scenario_bot_b t0) = 0.005"
    by (simp_all add: scenario_bot_b_def onSoftwareMessage_b_def new_BasicBot_def Let_def)
  have replies: "buyReply all_filled = Inr ''buy1''" "takeProfitReply all_filled = Inr ''tp1''"
    "stopLossReply all_filled = Inr ''sl1''"
    by (simp_all add: all_filled_def)
  have scenario: "snd (executeTrade_b (scenario_bot_b t0) scenario_opportunity_b now created all_filled) =
      [PlaceOrder \<lparr>tokenID = ''tokenUp'', order_price = 0.707, order_size = 50 / 7, order_side = BUY\<rparr>,
       PlaceOrder \<lparr>tokenID = ''tokenUp'', order_price = 0.71, order_size = 50 / 7, order_side = SELL\<rparr>,
       PlaceOrder \<lparr>tokenID = ''tokenUp'', order_price = 0.695, order_size = 50 / 7, order_side = SELL\<rparr>]"
    unfolding executeTrade_b_filled [OF replies]
    by (simp add: basic scenario_opportunity_b_def)
  show ?thesis
    using executeTrade_b_filled [OF assms(1-3), of bb opp now created]
      executeTrade_filled(1,2) [OF assms(1-3), of bt eopp now created] scenario
    by simp
qed

theorem executeTrade_entry_and_exits_witness:
  "buyReply all_filled = Inr ''buy1'' \<and> takeProfitReply all_filled = Inr ''tp1'' \<and>
   stopLossReply all_filled = Inr ''sl1'' \<and>
   bo_polymarketPrice scenario_opportunity_b > 0 \<and> polymarketPrice scenario_opportunity > 0 \<and>
   snd (executeTrade (scenario_bot 0) scenario_opportunity 31000 34000 all_filled) =
      [PlaceOrder \<lparr>tokenID = ''tokenUp'', order_price = 0.707, order_size = 50 / 7, order_side = BUY\<rparr>,
       GetOpenOrders,
       PlaceOrder \<lparr>tokenID = ''tokenUp'', order_price = 0.71, order_size = 50 / 7, order_side = SELL\<rparr>,
       PlaceOrder \<lparr>tokenID = ''tokenUp'', order_price = 0.695, order_size = 50 / 7, order_side = SELL\<rparr>] \<and>
   map (\<lambda>t. (b_buyPrice t, b_targetPrice t, b_stopPrice t, b_amount t))
     (b_activeTrades (fst (executeTrade_b (scenario_bot_b 0) scenario_opportunity_b 31000 33000 all_filled)))
     = [(0.70, 0.71, 0.695, 5)]"
proof -
  have replies: "buyReply all_filled = Inr ''buy1''" "takeProfitReply all_filled = Inr ''tp1''"
    "stopLossReply all_filled = Inr ''sl1''"
    by (simp_all add: all_filled_def)
  have positive: "bo_polymarketPrice scenario_opportunity_b > 0" "polymarketPrice scenario_opportunity > 0"
    by (simp_all add: scenario_opportunity_b_def scenario_opportunity_def)
  have basic: "b_tradeAmount (scenario_bot_b 0) = 5" "b_takeProfitAmount (scenario_bot_b 0) = 0.01"
    "b_stopLossAmount (scenario_bot_b 0) = 0.005" "b_activeTrades (scenario_bot_b 0) = []"
    by (simp_all add: scenario_bot_b_def onSoftwareMessage_b_def new_BasicBot_def Let_def)
  have enhanced: "takeProfitAmount (scenario_bot 0) = 0.01" "stopLossAmount (scenario_bot 0) = 0.005"
    by (simp_all add: scenario_bot_def onSoftwareMessage_def new_AutoTradingBot_def Let_def)
  show ?thesis
    using replies positive
      executeTrade_entry_and_exits [OF replies positive, of "scenario_bot_b 0" 31000 33000
        "scenario_bot 0" 0]
      executeTrade_entry_and_exits [OF replies positive, of "scenario_bot_b 0" 31000 34000
        "scenario_bot 0" 0]
    by (simp add: basic enhanced scenario_opportunity_b_def scenario_opportunity_def)
qed

section \<open>Properties of the liquidity check\<close>

lemma walkableLiquidity_nonneg: "wellFormedLevels levels \<Longrightarrow> 0 \<le> walkableLiquidity levels"
  by (induction levels) (simp_all add: wellFormedLevels_def walkableLiquidity_def)

lemma walkLevels_total:
  "fst (walkLevels levels (t, w, r)) = t + walkableLiquidity levels"
  by (induction levels arbitrary: t w r) (simp_all add: walkableLiquidity_def Let_def)

lemma walkLevels_remaining_done:
  "r \<le> 0 \<Longrightarrow> snd (snd (walkLevels levels (t, w, r))) = r"
  by (induction levels arbitrary: t w) (simp_all add: Let_def)

lemma walkLevels_remaining:
  assumes "wellFormedLevels levels" and "0 < r"
  shows "snd (snd (walkLevels levels (t, w, r))) = max 0 (r - walkableLiquidity levels)"
  using assms
proof (induction levels arbitrary: t w r)
  case Nil
  then show ?case by (simp add: walkableLiquidity_def)
next
  case (Cons l ls)
  define v where "v = level_price l * level_size l"
  have v0: "0 \<le> v" and wf: "wellFormedLevels ls"
    using Cons.prems(1) by (simp_all add: v_def wellFormedLevels_def)
  have rest0: "0 \<le> walkableLiquidity ls"
    by (rule walkableLiquidity_nonneg [OF wf])
  have total: "walkableLiquidity (l # ls) = v + walkableLiquidity ls"
    by (simp add: walkableLiquidity_def v_def)
  show ?case
  proof (cases "r - min r v > 0")
    case True
    then have "v < r" by (simp add: min_def split: if_splits)
    with True Cons.IH [OF wf True] Cons.prems(2) show ?thesis
      by (simp add: Let_def total v_def [symmetric] min_def algebra_simps)
  next
    case False
    then have le: "r \<le> v" by (simp add: min_def split: if_splits)
    have "snd (snd (walkLevels ls (t + v, w + level_price l * min r v, r - min r v))) = r - min r v"
      using False by (intro walkLevels_remaining_done) simp
    with le rest0 Cons.prems(2) show ?thesis
      by (simp add: Let_def total v_def [symmetric] min_def)
  qed
qed

lemma walkLevels_filled_iff:
  assumes "wellFormedLevels levels"
  shows "snd (snd (walkLevels levels (0, 0, a))) \<le> 0 \<longleftrightarrow> a \<le> walkableLiquidity levels"
proof (cases "0 < a")
  case True
  then show ?thesis
    using walkLevels_remaining [OF assms True, of 0 0] by (simp add: max_def)
next
  case False
  then have "a \<le> 0" by simp
  then show ?thesis
    using walkLevels_remaining_done [of a levels 0 0] walkableLiquidity_nonneg [OF assms] by simp
qed

lemma checkLiquidity_walk:
  assumes "orderBooks tr tid = Some book" and "sideLevels book sd \<noteq> []"
  shows "sufficient (checkLiquidity tr now tid sd a) =
           (fst (walkLevels (sideLevels book sd) (0, 0, a)) \<ge> a * minLiquidityMultiplier tr \<and>
            snd (snd (walkLevels (sideLevels book sd) (0, 0, a))) \<le> 0)"
    and "availableLiquidity (checkLiquidity tr now tid sd a) =
           fst (walkLevels (sideLevels book sd) (0, 0, a))"
    and "requiredLiquidity (checkLiquidity tr now tid sd a) = a * minLiquidityMultiplier tr"
  using assms
  by (simp_all add: checkLiquidity_def sideLevels_def Let_def split: prod.splits)

lemma scenario_effectivePrice:
  "effectivePrice (checkLiquidity scenario_tracker now ''UP'' BUY 15) = Fin (151 / 150)"
  by (simp add: checkLiquidity_def scenario_tracker_def scenario_asks_def updateOrderBook_def
      default_OrderBookTracker_def new_OrderBookTracker_def bestOf_def Let_def js_div_def)

lemma scenario_sufficient:
  "sufficient (checkLiquidity scenario_tracker now ''UP'' BUY 15) = False \<and>
   availableLiquidity (checkLiquidity scenario_tracker now ''UP'' BUY 15) = 20.2 \<and>
   requiredLiquidity (checkLiquidity scenario_tracker now ''UP'' BUY 15) = 30"
  by (simp add: checkLiquidity_def scenario_tracker_def scenario_asks_def updateOrderBook_def
      default_OrderBookTracker_def new_OrderBookTracker_def bestOf_def Let_def js_div_def)

text \<open>
  C4. For a stored book whose relevant side is not empty and whose levels are well formed,
  \<open>checkLiquidity\<close> reports \<open>sufficient\<close> exactly when the total notional value of the
  levels is at least \<open>amount * minLiquidityMultiplier\<close> and the walk leaves no unfilled
  remainder, which is the case exactly when the amount is at most that total value. For
  asks \<open>(1.00, 10)\<close>, \<open>(1.02, 10)\<close> and amount 15 the effective price is \<open>151/150\<close>,
  strictly between 1.00 and 1.02.
\<close>

theorem checkLiquidity_sufficient_iff:
  assumes "orderBooks tr tid = Some book"
    and "sideLevels book sd \<noteq> []"
    and "wellFormedLevels (sideLevels book sd)"
  shows "(sufficient (checkLiquidity tr now tid sd a) \<longleftrightarrow>
            walkableLiquidity (sideLevels book sd) \<ge> a * minLiquidityMultiplier tr \<and>
            snd (snd (walkLevels (sideLevels book sd) (0, 0, a))) \<le> 0) \<and>
         (snd (snd (walkLevels (sideLevels book sd) (0, 0, a))) \<le> 0 \<longleftrightarrow>
            a \<le> walkableLiquidity (sideLevels book sd)) \<and>
         availableLiquidity (checkLiquidity tr now tid sd a) = walkableLiquidity (sideLevels book sd) \<and>
         requiredLiquidity (checkLiquidity tr now tid sd a) = a * minLiquidityMultiplier tr \<and>
         effectivePrice (checkLiquidity scenario_tracker now ''UP'' BUY 15) = Fin (151 / 150) \<and>
         (1.00 :: real) < 151 / 150 \<and> (151 / 150 :: real) < 1.02"
proof -
  have total: "fst (walkLevels (sideLevels book sd) (0, 0, a)) = walkableLiquidity (sideLevels book sd)"
    using walkLevels_total [of "sideLevels book sd" 0 0 a] by simp
  show ?thesis
    using checkLiquidity_walk [OF assms(1,2), of now a] walkLevels_filled_iff [OF assms(3), of a]
      scenario_effectivePrice [of now]
    by (simp add: total)
qed

theorem checkLiquidity_sufficient_iff_witness:
  "orderBooks scenario_tracker ''UP'' \<noteq> None \<and>
   sideLevels (the (orderBooks scenario_tracker ''UP'')) BUY = scenario_asks \<and>
   wellFormedLevels scenario_asks \<and>
   walkableLiquidity scenario_asks = 20.2 \<and>
   \<not> sufficient (checkLiquidity scenario_tracker 0 ''UP'' BUY 15) \<and>
   sufficient (checkLiquidity scenario_tracker 0 ''UP'' BUY 10) \<and>
   availableLiquidity (checkLiquidity scenario_tracker 0 ''UP'' BUY 15) = 20.2"
proof -
  define book where "book = the (orderBooks scenario_tracker ''UP'')"
  have stored: "orderBooks scenario_tracker ''UP'' = Some book"
    by (simp add: book_def scenario_tracker_def updateOrderBook_def Let_def)
  have levels: "sideLevels book BUY = scenario_asks"
    by (simp add: book_def sideLevels_def scenario_tracker_def updateOrderBook_def Let_def)
  have nonempty: "sideLevels book BUY \<noteq> []"
    by (simp add: levels scenario_asks_def)
  have wf: "wellFormedLevels (sideLevels book BUY)"
    by (simp add: levels scenario_asks_def wellFormedLevels_def)
  have total: "walkableLiquidity scenario_asks = 20.2"
    by (simp add: scenario_asks_def walkableLiquidity_def)
  have mult: "minLiquidityMultiplier scenario_tracker = 2"
    by (simp add: scenario_tracker_def updateOrderBook_def default_OrderBookTracker_def
        new_OrderBookTracker_def Let_def)
  show ?thesis
    using checkLiquidity_sufficient_iff [OF stored nonempty wf, of 0 15]
      checkLiquidity_sufficient_iff [OF stored nonempty wf, of 0 10] wf stored
    by (simp add: levels total mult book_def [symmetric])
qed

section \<open>Properties of the retry loop\<close>

lemma backoffs_append: "backoffs (xs @ ys) = backoffs xs @ backoffs ys"
  by (induction xs rule: backoffs.induct) simp_all

lemma invocations_append: "invocations (xs @ ys) = invocations xs + invocations ys"
  by (induction xs rule: invocations.induct) simp_all

lemma waitForSlot_backoffs: "backoffs (trace (waitForSlot mi st key)) = backoffs (trace st)"
  by (simp add: waitForSlot_def sleep_def Let_def backoffs_append)

lemma waitForSlot_invocations: "invocations (trace (waitForSlot mi st key)) = invocations (trace st)"
  by (simp add: waitForSlot_def sleep_def Let_def invocations_append)

lemmas trace_simps =
  backoffs_append invocations_append waitForSlot_backoffs waitForSlot_invocations

text \<open>The loop started at attempt \<open>a\<close>, when the first success from there on is at \<open>k\<close>.\<close>

lemma retryLoop_success:
  assumes "real k \<le> maxRetries cfg" and "fn k = Inr v"
    and "\<forall>i. a \<le> i \<and> i < k \<longrightarrow> (\<exists>e. fn i = Inl e)" and "a \<le> k"
  shows "fst (retryLoop cfg mi fn opn a le st) = Inr v \<and>
         backoffs (trace (snd (retryLoop cfg mi fn opn a le st)))
           = backoffs (trace st) @ map (backoffDelay cfg) [a..<k] \<and>
         invocations (trace (snd (retryLoop cfg mi fn opn a le st)))
           = invocations (trace st) + (k + 1 - a)"
  using assms(3,4)
proof (induction "k - a" arbitrary: a le st)
  case 0
  then have "a = k" by simp
  then show ?case
    using assms(1,2) by (subst (1 2 3) retryLoop.simps) (simp add: Let_def trace_simps)
next
  case (Suc d)
  then have lt: "a < k" by simp
  then obtain e where e: "fn a = Inl e"
    using Suc.prems(1) by auto
  have small: "real a < maxRetries cfg" "real a \<le> maxRetries cfg"
    using lt assms(1) by simp_all
  have d: "d = k - (a + 1)"
    using Suc.hyps(2) by simp
  have rest: "\<forall>i. a + 1 \<le> i \<and> i < k \<longrightarrow> (\<exists>e. fn i = Inl e)"
    using Suc.prems(1) by simp
  have upt: "[a..<k] = a # [a + 1..<k]"
    using lt by (simp add: upt_conv_Cons)
  have le: "a + 1 \<le> k"
    using lt by simp
  have more: "k + 1 - a = Suc (k + 1 - (a + 1))"
    using lt by simp
  note IH = Suc.hyps(1) [OF d rest le]
  show ?case
    apply (subst (1 2 3) retryLoop.simps)
    apply (simp only: small e if_True Let_def sum.case)
    apply (simp only: IH upt more)
    apply (simp add: sleep_def trace_simps)
    done
qed

text \<open>The loop started at attempt \<open>a\<close>, when every attempt up to the last one fails.\<close>

lemma retryLoop_exhausted:
  assumes "maxRetries cfg = real n"
    and "\<forall>i. a \<le> i \<and> i \<le> n \<longrightarrow> fn i = Inl (errs i)" and "a \<le> n"
  shows "fst (retryLoop cfg mi fn opn a le st) = Inl (errs n) \<and>
         backoffs (trace (snd (retryLoop cfg mi fn opn a le st)))
           = backoffs (trace st) @ map (backoffDelay cfg) [a..<n] \<and>
         invocations (trace (snd (retryLoop cfg mi fn opn a le st)))
           = invocations (trace st) + (n + 1 - a)"
  using assms(2,3)
proof (induction "n - a" arbitrary: a le st)
  case 0
  then have an: "a = n" by simp
  have last: "fn n = Inl (errs n)"
    using "0.prems"(1) an by simp
  have stop: "\<not> real (n + 1) \<le> maxRetries cfg"
    using assms(1) by simp
  show ?case
    unfolding an
    apply (subst (1 2 3) retryLoop.simps)
    apply (simp only: assms(1) last order_refl less_irrefl if_True if_False Let_def sum.case)
    apply (subst (1 2 3) retryLoop.simps)
    apply (simp only: stop if_False)
    apply (simp add: trace_simps)
    done
next
  case (Suc d)
  then have lt: "a < n" by simp
  have e: "fn a = Inl (errs a)"
    using Suc.prems(1) lt by simp
  have small: "real a < maxRetries cfg" "real a \<le> maxRetries cfg"
    using lt assms(1) by simp_all
  have d: "d = n - (a + 1)"
    using Suc.hyps(2) by simp
  have rest: "\<forall>i. a + 1 \<le> i \<and> i \<le> n \<longrightarrow> fn i = Inl (errs i)"
    using Suc.prems(1) by simp
  have upt: "[a..<n] = a # [a + 1..<n]"
    using lt by (simp add: upt_conv_Cons)
  have le: "a + 1 \<le> n"
    using lt by simp
  have more: "n + 1 - a = Suc (n + 1 - (a + 1))"
    using lt by simp
  note IH = Suc.hyps(1) [OF d rest le]
  show ?case
    apply (subst (1 2 3) retryLoop.simps)
    apply (simp only: small e if_True Let_def sum.case)
    apply (simp only: IH upt more)
    apply (simp add: sleep_def trace_simps)
    done
qed

text \<open>Whatever the thunk does, the loop from attempt \<open>a\<close> invokes it at most
  \<open>n + 1 - a\<close> times.\<close>

lemma retryLoop_invocations_le:
  assumes "maxRetries cfg = real n"
  shows "invocations (trace (snd (retryLoop cfg mi fn opn a le st)))
           \<le> invocations (trace st) + (n + 1 - a)"
proof (induction "n + 1 - a" arbitrary: a le st)
  case 0
  then have "\<not> real a \<le> maxRetries cfg"
    using assms by simp
  then show ?case
    by (subst retryLoop.simps) simp
next
  case (Suc d)
  then have an: "a \<le> n" and d: "d = n + 1 - (a + 1)" by simp_all
  have more: "n + 1 - a = Suc (n + 1 - (a + 1))"
    using an by simp
  note IH = Suc.hyps(1) [OF d]
  show ?case
  proof (cases "fn a")
    case (Inr v)
    then show ?thesis
      using an assms by (subst retryLoop.simps) (simp add: Let_def trace_simps)
  next
    case (Inl e)
    show ?thesis
    proof (cases "real a < maxRetries cfg")
      case True
      then have lt: "real a < real n" using assms by simp
      have "invocations (trace (snd (retryLoop cfg mi fn opn a le st)))
              \<le> invocations (trace st) + 1 + (n + 1 - (a + 1))"
        apply (subst retryLoop.simps)
        apply (simp only: lt Inl an assms of_nat_le_iff if_True Let_def sum.case)
        apply (rule order_trans [OF IH])
        apply (simp add: sleep_def trace_simps)
        done
      then show ?thesis using more by simp
    next
      case False
      then have nlt: "\<not> real a < real n" using assms by simp
      have "invocations (trace (snd (retryLoop cfg mi fn opn a le st)))
              \<le> invocations (trace st) + 1 + (n + 1 - (a + 1))"
        apply (subst retryLoop.simps)
        apply (simp only: nlt Inl an assms of_nat_le_iff if_True if_False Let_def sum.case)
        apply (rule order_trans [OF IH])
        apply (simp add: trace_simps)
        done
      then show ?thesis using more by simp
    qed
  qed
qed

lemma retry_scenario:
  "executeWithRetry defaultRateLimiter failing3 ''op'' fresh_state =
     (Inr ''ok'',
      \<lparr>clock = 1700000007000,
       lastCallTime = [''op'' \<mapsto> 1700000007000],
       trace =
         [Called 0, WarnRetry ''op'' 1 5 (Error ''boom'') 1000, Backoff 1000,
          Called 1, WarnRetry ''op'' 2 5 (Error ''boom'') 2000, Backoff 2000,
          Called 2, WarnRetry ''op'' 3 5 (Error ''boom'') 4000, Backoff 4000,
          Called 3]\<rparr>)"
  by (simp add: executeWithRetry_def defaultRateLimiter_def new_RateLimiter_def DEFAULT_CONFIG_def
      failing3_def fresh_state_def retryLoop.simps waitForSlot_def sleep_def backoffDelay_def
      Let_def)

text \<open>
  C5. With \<open>maxRetries = n\<close>: the delay after the failure of attempt \<open>i\<close> (counted
  from 0) is \<open>min (baseDelayMs * 2 ^ i) maxDelayMs\<close>; the thunk is invoked at most
  \<open>n + 1\<close> times, whatever it does; when all \<open>n + 1\<close> attempts fail the call fails with
  the error of the last attempt, after the delays of attempts \<open>0 .. n - 1\<close>; when the
  first success is at attempt \<open>k \<le> n\<close> the call returns its value after \<open>k + 1\<close>
  invocations and the delays of attempts \<open>0 .. k - 1\<close>. A thunk failing three times,
  with \<open>maxRetries = 4\<close>, 1000 ms and 16000 ms, succeeds at the fourth invocation after
  sleeping 1000, 2000 and 4000 ms.
\<close>

theorem executeWithRetry_backoff:
  assumes "maxRetries (config rl) = real n"
  shows "backoffDelay (config rl) i = min (baseDelayMs (config rl) * 2 ^ i) (maxDelayMs (config rl)) \<and>
         invocations (trace (snd (executeWithRetry rl fn opn st))) \<le> invocations (trace st) + (n + 1) \<and>
         ((\<forall>i. i \<le> n \<longrightarrow> fn i = Inl (errs i)) \<longrightarrow>
            fst (executeWithRetry rl fn opn st) = Inl (errs n) \<and>
            backoffs (trace (snd (executeWithRetry rl fn opn st)))
              = backoffs (trace st) @ map (backoffDelay (config rl)) [0..<n] \<and>
            invocations (trace (snd (executeWithRetry rl fn opn st))) = invocations (trace st) + (n + 1)) \<and>
         (k \<le> n \<and> fn k = Inr v \<and> (\<forall>i. i < k \<longrightarrow> (\<exists>e. fn i = Inl e)) \<longrightarrow>
            fst (executeWithRetry rl fn opn st) = Inr v \<and>
            backoffs (trace (snd (executeWithRetry rl fn opn st)))
              = backoffs (trace st) @ map (backoffDelay (config rl)) [0..<k] \<and>
            invocations (trace (snd (executeWithRetry rl fn opn st))) = invocations (trace st) + (k + 1)) \<and>
         executeWithRetry defaultRateLimiter failing3 ''op'' fresh_state =
           (Inr ''ok'',
            \<lparr>clock = 1700000007000,
             lastCallTime = [''op'' \<mapsto> 1700000007000],
             trace =
               [Called 0, WarnRetry ''op'' 1 5 (Error ''boom'') 1000, Backoff 1000,
                Called 1, WarnRetry ''op'' 2 5 (Error ''boom'') 2000, Backoff 2000,
                Called 2, WarnRetry ''op'' 3 5 (Error ''boom'') 4000, Backoff 4000,
                Called 3]\<rparr>)"
proof -
  have bound: "invocations (trace (snd (executeWithRetry rl fn opn st))) \<le> invocations (trace st) + (n + 1)"
    using retryLoop_invocations_le [OF assms, of "minIntervalMs rl" fn opn 0 None st]
    by (simp add: executeWithRetry_def)
  have exhausted: "fst (executeWithRetry rl fn opn st) = Inl (errs n) \<and>
            backoffs (trace (snd (executeWithRetry rl fn opn st)))
              = backoffs (trace st) @ map (backoffDelay (config rl)) [0..<n] \<and>
            invocations (trace (snd (executeWithRetry rl fn opn st))) = invocations (trace st) + (n + 1)"
    if "\<forall>i. i \<le> n \<longrightarrow> fn i = Inl (errs i)"
    using retryLoop_exhausted [OF assms, of 0 fn errs "minIntervalMs rl" opn None st] that
    by (simp add: executeWithRetry_def)
  have success: "fst (executeWithRetry rl fn opn st) = Inr v \<and>
            backoffs (trace (snd (executeWithRetry rl fn opn st)))
              = backoffs (trace st) @ map (backoffDelay (config rl)) [0..<k] \<and>
            invocations (trace (snd (executeWithRetry rl fn opn st))) = invocations (trace st) + (k + 1)"
    if "k \<le> n" and "fn k = Inr v" and "\<forall>i. i < k \<longrightarrow> (\<exists>e. fn i = Inl e)"
  proof -
    have "real k \<le> maxRetries (config rl)"
      using that(1) assms by simp
    with retryLoop_success [where a = 0 and mi = "minIntervalMs rl" and opn = opn and le = None
        and st = st and k = k and fn = fn and v = v and cfg = "config rl"] that(2,3)
    show ?thesis by (simp add: executeWithRetry_def)
  qed
  show ?thesis
    using bound exhausted success retry_scenario by (simp add: backoffDelay_def)
qed

theorem executeWithRetry_backoff_witness:
  "maxRetries (config defaultRateLimiter) = real 4 \<and>
   fst (executeWithRetry defaultRateLimiter failing3 ''op'' fresh_state) = Inr ''ok'' \<and>
   backoffs (trace (snd (executeWithRetry defaultRateLimiter failing3 ''op'' fresh_state)))
     = [1000, 2000, 4000] \<and>
   invocations (trace (snd (executeWithRetry defaultRateLimiter failing3 ''op'' fresh_state))) = 4 \<and>
   fst (executeWithRetry defaultRateLimiter (\<lambda>i. Inl (Error ''429'') :: js_error + string)
          ''op'' fresh_state) = Inl (Error ''429'') \<and>
   backoffs (trace (snd (executeWithRetry defaultRateLimiter
          (\<lambda>i. Inl (Error ''429'') :: js_error + string) ''op'' fresh_state)))
     = [1000, 2000, 4000, 8000] \<and>
   invocations (trace (snd (executeWithRetry defaultRateLimiter
          (\<lambda>i. Inl (Error ''429'') :: js_error + string) ''op'' fresh_state))) = 5"
proof -
  have n: "maxRetries (config defaultRateLimiter) = real 4"
    by (simp add: defaultRateLimiter_def new_RateLimiter_def DEFAULT_CONFIG_def)
  have cfg: "config defaultRateLimiter = DEFAULT_CONFIG"
    by (simp add: defaultRateLimiter_def new_RateLimiter_def)
  have delays3: "map (backoffDelay DEFAULT_CONFIG) [0..<3] = [1000, 2000, 4000]"
    by (simp add: eval_nat_numeral backoffDelay_def DEFAULT_CONFIG_def)
  have delays4: "map (backoffDelay DEFAULT_CONFIG) [0..<4] = [1000, 2000, 4000, 8000]"
    by (simp add: eval_nat_numeral backoffDelay_def DEFAULT_CONFIG_def)
  have fails: "\<forall>i. i < 3 \<longrightarrow> (\<exists>e. failing3 i = Inl e)" and succeeds: "failing3 3 = Inr ''ok''"
    by (simp_all add: failing3_def)
  show ?thesis
    using n fails succeeds
      executeWithRetry_backoff [OF n, of 0 failing3 "''op''" fresh_state "\<lambda>i. Error ''boom''" 3 "''ok''"]
      executeWithRetry_backoff [OF n, of 0 "\<lambda>i. Inl (Error ''429'') :: js_error + string" "''op''"
        fresh_state "\<lambda>i. Error ''429''" 0 "''none''"]
    by (simp add: cfg delays3 delays4 fresh_state_def)
qed

section \<open>Properties of closing a trade\<close>

lemma recordTradeClose_closed:
  assumes "heap bt ref = Some trade" and "status trade = closed"
  shows "recordTradeClose bt ref reason now = bt"
  using assms by (simp add: recordTradeClose_def)

lemma recordTradeClose_status:
  "heap bt ref = Some trade \<Longrightarrow>
   \<exists>trade2. heap (recordTradeClose bt ref reason now) ref = Some trade2 \<and> status trade2 = closed"
  by (cases "status trade = closed") (simp_all add: recordTradeClose_def Let_def)

lemma recordTradeClose_idem:
  "recordTradeClose (recordTradeClose bt ref r1 n1) ref r2 n2 = recordTradeClose bt ref r1 n1"
proof (cases "heap bt ref")
  case None
  then show ?thesis by (simp add: recordTradeClose_def)
next
  case (Some trade)
  from recordTradeClose_status [OF Some, of r1 n1]
  obtain trade2 where "heap (recordTradeClose bt ref r1 n1) ref = Some trade2"
    and "status trade2 = closed" by blast
  then show ?thesis by (rule recordTradeClose_closed)
qed

lemma recordTradeClose_first:
  assumes "heap bt ref = Some trade" and "status trade \<noteq> closed"
  shows "trades (pnlTracker (recordTradeClose bt ref reason now)) =
           trades (pnlTracker bt) @
             [\<lparr>tradeId = t_id trade, tokenType = t_tokenType trade, entryPrice = buyPrice trade,
               exitPrice = (if reason = take_profit then targetPrice trade else stopPrice trade),
               shares = t_shares trade,
               pnl = ((if reason = take_profit then targetPrice trade else stopPrice trade)
                        - buyPrice trade) * t_shares trade,
               pnlPercent = js_mul (js_div ((if reason = take_profit then targetPrice trade
                                             else stopPrice trade) - buyPrice trade)
                                      (buyPrice trade)) 100,
               exitReason = reason, entryTime = t_timestamp trade, exitTime = now,
               holdingTimeMs = now - t_timestamp trade\<rparr>]"
    and "runningPnL (pnlTracker (recordTradeClose bt ref reason now)) =
           runningPnL (pnlTracker bt) +
             ((if reason = take_profit then targetPrice trade else stopPrice trade)
                - buyPrice trade) * t_shares trade"
  using assms by (simp_all add: recordTradeClose_def recordTrade_def Let_def)

text \<open>
  C6. Closing the same trade a second time, for any reason and at any time, changes
  nothing: the bot state after the second \<open>recordTradeClose\<close> is the state after the
  first, so the ledger's trade list and running P&L are those of the first close. The
  first close of a trade that is not yet closed appends exactly one result and adds its
  P&L once.
\<close>

theorem recordTradeClose_idempotent:
  "recordTradeClose (recordTradeClose bt ref r1 n1) ref r2 n2 = recordTradeClose bt ref r1 n1 \<and>
   trades (pnlTracker (recordTradeClose (recordTradeClose bt ref r1 n1) ref r2 n2))
     = trades (pnlTracker (recordTradeClose bt ref r1 n1)) \<and>
   runningPnL (pnlTracker (recordTradeClose (recordTradeClose bt ref r1 n1) ref r2 n2))
     = runningPnL (pnlTracker (recordTradeClose bt ref r1 n1)) \<and>
   (heap bt ref = Some trade \<and> status trade \<noteq> closed \<longrightarrow>
      length (trades (pnlTracker (recordTradeClose (recordTradeClose bt ref r1 n1) ref r2 n2)))
        = length (trades (pnlTracker bt)) + 1 \<and>
      runningPnL (pnlTracker (recordTradeClose (recordTradeClose bt ref r1 n1) ref r2 n2))
        = runningPnL (pnlTracker bt) +
            ((if r1 = take_profit then targetPrice trade else stopPrice trade) - buyPrice trade)
              * t_shares trade)"
  using recordTradeClose_first [of bt ref trade r1 n1]
  by (simp add: recordTradeClose_idem)

theorem recordTradeClose_idempotent_witness:
  "heap (fst (executeTrade (scenario_bot 0) scenario_opportunity 31000 34000 all_filled)) 0 \<noteq> None \<and>
   map pnl (trades (pnlTracker
     (recordTradeClose
        (recordTradeClose (fst (executeTrade (scenario_bot 0) scenario_opportunity 31000 34000 all_filled))
           0 take_profit 40000)
        0 stop_loss 45000))) = [1 / 14] \<and>
   runningPnL (pnlTracker
     (recordTradeClose
        (recordTradeClose (fst (executeTrade (scenario_bot 0) scenario_opportunity 31000 34000 all_filled))
           0 take_profit 40000)
        0 stop_loss 45000)) = 1 / 14"
proof -
  define bt where "bt = fst (executeTrade (scenario_bot 0) scenario_opportunity 31000 34000 all_filled)"
  have replies: "buyReply all_filled = Inr ''buy1''" "takeProfitReply all_filled = Inr ''tp1''"
    "stopLossReply all_filled = Inr ''sl1''"
    by (simp_all add: all_filled_def)
  have start: "nextRef (scenario_bot 0) = 0" "takeProfitAmount (scenario_bot 0) = 0.01"
    "stopLossAmount (scenario_bot 0) = 0.005" "pnlTracker (scenario_bot 0) = new_PnLTracker"
    by (simp_all add: scenario_bot_def onSoftwareMessage_def new_AutoTradingBot_def Let_def)
  obtain trade where trade: "heap bt 0 = Some trade" and fields: "status trade = filled"
    "buyPrice trade = 0.70" "targetPrice trade = 0.71" "t_shares trade = 50 / 7"
    using executeTrade_filled(2) [OF replies, of "scenario_bot 0" scenario_opportunity 31000 34000]
    by (simp add: bt_def start scenario_opportunity_def)
  have ledger: "pnlTracker bt = new_PnLTracker"
    using executeTrade_filled(4) [OF replies, of "scenario_bot 0" scenario_opportunity 31000 34000]
    by (simp add: bt_def start)
  have first: "trades (pnlTracker (recordTradeClose bt 0 take_profit 40000)) \<noteq> []"
    "map pnl (trades (pnlTracker (recordTradeClose bt 0 take_profit 40000))) = [1 / 14]"
    using recordTradeClose_first(1) [OF trade, of take_profit 40000]
    by (simp_all add: fields ledger new_PnLTracker_def)
  show ?thesis
    using trade first recordTradeClose_idempotent [of bt 0 take_profit 40000 stop_loss 45000 trade]
    by (simp add: fields ledger new_PnLTracker_def bt_def [symmetric])
qed

section \<open>Properties of the ledger\<close>

lemma recordTrade_maxDrawdown_mono: "maxDrawdown t \<le> maxDrawdown (recordTrade t r)"
  by (simp add: recordTrade_def Let_def)

lemma recordTrades_maxDrawdown_mono: "maxDrawdown t \<le> maxDrawdown (recordTrades t rs)"
proof (induction rs arbitrary: t)
  case Nil
  show ?case by (simp add: recordTrades_def)
next
  case (Cons r rs)
  have "maxDrawdown t \<le> maxDrawdown (recordTrade t r)"
    by (rule recordTrade_maxDrawdown_mono)
  also have "\<dots> \<le> maxDrawdown (recordTrades (recordTrade t r) rs)"
    by (rule Cons.IH)
  finally show ?case by (simp add: recordTrades_def)
qed

lemma recordTrades_append: "recordTrades t (rs @ rs2) = recordTrades (recordTrades t rs) rs2"
  by (simp add: recordTrades_def)

text \<open>
  C7. Drawdown monotonicity: recording one more trade result never lowers
  \<open>maxDrawdown\<close>, and so along any sequence of recorded results the value after a longer
  sequence is at least the value after any of its prefixes, from any ledger state.
\<close>

theorem maxDrawdown_nondecreasing:
  "maxDrawdown t \<le> maxDrawdown (recordTrade t r) \<and>
   maxDrawdown (recordTrades t rs) \<le> maxDrawdown (recordTrades t (rs @ rs2)) \<and>
   maxDrawdown (recordTrades new_PnLTracker rs)
     \<le> maxDrawdown (recordTrade (recordTrades new_PnLTracker rs) r)"
  by (simp add: recordTrade_maxDrawdown_mono recordTrades_append recordTrades_maxDrawdown_mono)

lemma getStats_finite_fields:
  "is_finite (winRate (getStats t)) \<and> is_finite (averagePnL (getStats t)) \<and>
   is_finite (bestTrade (getStats t)) \<and> is_finite (worstTrade (getStats t)) \<and>
   is_finite (averageHoldingTimeMs (getStats t))"
  by (cases "trades t")
     (simp_all add: getStats_def zeroStats_def computeStats_def Let_def js_div_def
        Math_max_spread_def Math_min_spread_def)

text \<open>
  C10. With no trade recorded, \<open>getStats\<close> returns the all-zero record. The branch after
  the guard would give NaN for the averages and \<open>-Infinity\<close>/\<open>Infinity\<close> for the extrema
  on an empty list; \<open>getStats\<close> never returns such a value, for any ledger state.
\<close>

theorem getStats_empty_all_zero:
  assumes "trades t = []"
  shows "getStats t = zeroStats \<and>
         totalTrades (getStats t) = 0 \<and> winRate (getStats t) = Fin 0 \<and>
         totalPnL (getStats t) = 0 \<and> averagePnL (getStats t) = Fin 0 \<and>
         profitFactor (getStats t) = Fin 0 \<and> stats_maxDrawdown (getStats t) = 0 \<and>
         bestTrade (getStats t) = Fin 0 \<and> worstTrade (getStats t) = Fin 0 \<and>
         averageHoldingTimeMs (getStats t) = Fin 0 \<and>
         winRate (computeStats t) = NaN \<and> bestTrade (computeStats t) = NegInf \<and>
         worstTrade (computeStats t) = PosInf \<and> averageHoldingTimeMs (computeStats t) = NaN \<and>
         is_finite (winRate (getStats u)) \<and> is_finite (averagePnL (getStats u)) \<and>
         is_finite (bestTrade (getStats u)) \<and> is_finite (worstTrade (getStats u)) \<and>
         is_finite (averageHoldingTimeMs (getStats u))"
proof -
  have zero: "getStats t = zeroStats"
    using assms by (simp add: getStats_def)
  have branch: "winRate (computeStats t) = NaN \<and> bestTrade (computeStats t) = NegInf \<and>
         worstTrade (computeStats t) = PosInf \<and> averageHoldingTimeMs (computeStats t) = NaN"
    using assms
    by (simp add: computeStats_def Let_def js_div_def Math_max_spread_def Math_min_spread_def)
  show ?thesis
    using branch getStats_finite_fields [of u] by (simp add: zero zeroStats_def)
qed

theorem getStats_empty_all_zero_witness:
  "trades new_PnLTracker = [] \<and> getStats new_PnLTracker = zeroStats \<and>
   totalTrades (getStats new_PnLTracker) = 0 \<and> bestTrade (getStats new_PnLTracker) = Fin 0"
proof -
  have empty: "trades new_PnLTracker = []"
    by (simp add: new_PnLTracker_def)
  show ?thesis
    using empty getStats_empty_all_zero [OF empty, of new_PnLTracker]
    by (simp add: zeroStats_def)
qed

section \<open>Properties of opportunity detection\<close>

lemma cooldown_b:
  "now - b_lastTradeTime bb < b_tradeCooldown bb \<Longrightarrow>
   checkTradeOpportunity_b bb now reply = (Inr None, [])"
  by (simp add: checkTradeOpportunity_b_def Let_def)

lemma cooldown_e:
  "now - lastTradeTime bt < tradeCooldown bt \<Longrightarrow>
   checkTradeOpportunity bt now bookNow reply = (Inr None, [])"
  by (simp add: checkTradeOpportunity_def Let_def)

lemma scenario_bot_b_fields:
  "b_tradeCooldown (scenario_bot_b t0) = 30000" "b_lastTradeTime (scenario_bot_b t0) = t0"
  "b_minimumBalance (scenario_bot_b t0) = 500" "b_priceThreshold (scenario_bot_b t0) = 0.015"
  "b_tokenIdUp (scenario_bot_b t0) = Some ''tokenUp''"
  "b_softwarePrices (scenario_bot_b t0) = \<lparr>b_UP = 0.75, b_DOWN = 0.25\<rparr>"
  "b_polymarketPrices (scenario_bot_b t0) ''tokenUp'' = Some 0.70"
  by (simp_all add: scenario_bot_b_def onSoftwareMessage_b_def new_BasicBot_def orZero_def Let_def)

lemma scanToken_b_scenario: "scanToken_b (scenario_bot_b t0) ''UP'' = Some scenario_opportunity_b"
  by (simp add: scanToken_b_def scenario_bot_b_fields scenario_opportunity_b_def orZero_def Let_def)

lemma scenario_b_after_cooldown:
  assumes "30000 \<le> now - t0"
  shows "checkTradeOpportunity_b (scenario_bot_b t0) now (Inr rich)
           = (Inr (Some scenario_opportunity_b), [BalanceCheck])"
  using assms
  by (simp add: checkTradeOpportunity_b_def scenario_bot_b_fields scanToken_b_scenario rich_def Let_def)

lemma scenario_bot_fields:
  "tradeCooldown (scenario_bot t0) = 30000" "lastTradeTime (scenario_bot t0) = t0"
  "minimumBalance (scenario_bot t0) = 500" "priceThreshold (scenario_bot t0) = 0.015"
  "priceStaleMs (scenario_bot t0) = 10000" "maxSpread (scenario_bot t0) = 3"
  "maxSlippage (scenario_bot t0) = 0.01" "tradeAmount (scenario_bot t0) = 5"
  "enableDynamicSizing (scenario_bot t0) = False"
  "tokenIdUp (scenario_bot t0) = Some ''tokenUp''"
  "softwarePrices (scenario_bot t0) = \<lparr>UP = 0.75, DOWN = 0.25, pd_lastUpdate = t0 + 30000\<rparr>"
  "polymarketPrices (scenario_bot t0) ''tokenUp'' = Some 0.70"
  by (simp_all add: scenario_bot_def onSoftwareMessage_def new_AutoTradingBot_def orZero_def Let_def)

lemma scenario_book:
  "orderBooks (orderBookTracker (scenario_bot t0)) ''tokenUp'' =
     Some \<lparr>tokenId = ''tokenUp'', bids = [\<lparr>level_price = 0.69, level_size = 100\<rparr>],
           asks = [\<lparr>level_price = 0.71, level_size = 100\<rparr>], lastUpdate = t0 + 30000,
           midPrice = 0.70, spread = 0.02, spreadPercent = 20 / 7\<rparr>"
  "maxStaleMs (orderBookTracker (scenario_bot t0)) = 10000"
  "minLiquidityMultiplier (orderBookTracker (scenario_bot t0)) = 2"
  "maxSpreadPercent (orderBookTracker (scenario_bot t0)) = 3"
  by (simp_all add: scenario_bot_def updateOrderBook_def new_OrderBookTracker_def bestOf_def Let_def)

lemma scenario_liquidity:
  "checkLiquidity (orderBookTracker (scenario_bot t0)) (t0 + 31000) ''tokenUp'' BUY 5 =
     \<lparr>sufficient = True, availableLiquidity = 71, requiredLiquidity = 10,
      estimatedSlippage = Fin 0, effectivePrice = Fin 0.71, warnings = []\<rparr>"
  by (simp add: checkLiquidity_def scenario_book isStale_def bestOf_def js_div_def Let_def)

lemma scanToken_scenario:
  "scanToken (scenario_bot t0) (t0 + 31000) 1000 rich ''UP'' = (Some scenario_opportunity, [])"
  by (simp add: scanToken_def scenario_bot_fields scenario_book scenario_liquidity isStale_def
      getSpread_def orZero_def calculateConfidence_def scenario_opportunity_def Let_def)

lemma scenario_after_cooldown:
  "checkTradeOpportunity (scenario_bot t0) (t0 + 31000) (t0 + 31000) (Inr rich)
     = (Inr (Some scenario_opportunity), [BalanceCheck])"
proof -
  have "usdc rich = 1000" by (simp add: rich_def)
  then show ?thesis
    by (simp add: checkTradeOpportunity_def scenario_bot_fields scanToken_scenario Let_def)
qed

text \<open>
  C8. In both bots, a tick at which \<open>now - lastTradeTime\<close> is below the cooldown returns no
  opportunity, without any call or log, whatever the balance call would have returned.
  With a last trade at \<open>t0\<close> and a cooldown of 30 s, the tick at \<open>t0 + 29 s\<close> returns none
  and the tick at \<open>t0 + 31 s\<close> returns the opportunity of the scenario, whose other gates
  pass.
\<close>

theorem cooldown_rejects:
  "(now - b_lastTradeTime bb < b_tradeCooldown bb \<longrightarrow>
      checkTradeOpportunity_b bb now replyb = (Inr None, [])) \<and>
   (now - lastTradeTime bt < tradeCooldown bt \<longrightarrow>
      checkTradeOpportunity bt now bookNow reply = (Inr None, [])) \<and>
   b_lastTradeTime (scenario_bot_b t0) = t0 \<and> b_tradeCooldown (scenario_bot_b t0) = 30 * 1000 \<and>
   checkTradeOpportunity_b (scenario_bot_b t0) (t0 + 29000) replyb = (Inr None, []) \<and>
   checkTradeOpportunity_b (scenario_bot_b t0) (t0 + 31000) (Inr rich)
     = (Inr (Some scenario_opportunity_b), [BalanceCheck]) \<and>
   lastTradeTime (scenario_bot t0) = t0 \<and> tradeCooldown (scenario_bot t0) = 30 * 1000 \<and>
   checkTradeOpportunity (scenario_bot t0) (t0 + 29000) bookNow reply = (Inr None, []) \<and>
   checkTradeOpportunity (scenario_bot t0) (t0 + 31000) (t0 + 31000) (Inr rich)
     = (Inr (Some scenario_opportunity), [BalanceCheck])"
proof -
  have "checkTradeOpportunity_b (scenario_bot_b t0) (t0 + 29000) replyb = (Inr None, [])"
    by (rule cooldown_b) (simp add: scenario_bot_b_fields)
  moreover have "checkTradeOpportunity (scenario_bot t0) (t0 + 29000) bookNow reply = (Inr None, [])"
    by (rule cooldown_e) (simp add: scenario_bot_fields)
  moreover have "checkTradeOpportunity_b (scenario_bot_b t0) (t0 + 31000) (Inr rich)
     = (Inr (Some scenario_opportunity_b), [BalanceCheck])"
    by (rule scenario_b_after_cooldown) simp
  ultimately show ?thesis
    using cooldown_b [of now bb replyb] cooldown_e [of now bt bookNow reply]
      scenario_after_cooldown [of t0]
    by (simp add: scenario_bot_b_fields scenario_bot_fields)
qed

theorem cooldown_rejects_witness:
  "(29000 :: real) - b_lastTradeTime (scenario_bot_b 0) < b_tradeCooldown (scenario_bot_b 0) \<and>
   checkTradeOpportunity_b (scenario_bot_b 0) 29000 (Inr rich) = (Inr None, []) \<and>
   (29000 :: real) - lastTradeTime (scenario_bot 0) < tradeCooldown (scenario_bot 0) \<and>
   checkTradeOpportunity (scenario_bot 0) 29000 29000 (Inr rich) = (Inr None, []) \<and>
   checkTradeOpportunity (scenario_bot 0) 31000 31000 (Inr rich)
     = (Inr (Some scenario_opportunity), [BalanceCheck])"
  using cooldown_rejects [of 29000 "scenario_bot_b 0" "Inr rich" "scenario_bot 0" 29000 "Inr rich" 0]
  by (simp add: scenario_bot_b_fields scenario_bot_fields)

text \<open>
  C9 (as amended). In the enhanced bot, a tick at which the age of the oracle prices,
  \<open>now - softwarePrices.lastUpdate\<close>, exceeds \<open>priceStaleMs\<close> returns no opportunity: when
  the cooldown has passed, the only effect is the debug line of the freshness gate; the
  balance call is not made and no token is looked at, whatever the balance call and the
  order books would have given.
\<close>

theorem stale_oracle_rejects:
  assumes "now - pd_lastUpdate (softwarePrices bt) > priceStaleMs bt"
  shows "checkTradeOpportunity bt now bookNow reply =
           (Inr None,
            if tradeCooldown bt - (now - lastTradeTime bt) > 0 then []
            else [DebugOracleStale (now - pd_lastUpdate (softwarePrices bt))])"
  using assms by (simp add: checkTradeOpportunity_def Let_def)

theorem stale_oracle_rejects_witness:
  "(41001 :: real) - pd_lastUpdate (softwarePrices (scenario_bot 0)) > priceStaleMs (scenario_bot 0) \<and>
   checkTradeOpportunity (scenario_bot 0) 41001 41001 (Inr rich) = (Inr None, [DebugOracleStale 11001]) \<and>
   checkTradeOpportunity (scenario_bot 0) 41001 41001 (Inl (Error ''rpc down''))
     = (Inr None, [DebugOracleStale 11001]) \<and>
   checkTradeOpportunity (scenario_bot 0) 40000 40000 (Inr rich)
     \<noteq> (Inr None, [DebugOracleStale 10000])"
proof -
  have stale: "(41001 :: real) - pd_lastUpdate (softwarePrices (scenario_bot 0)) > priceStaleMs (scenario_bot 0)"
    by (simp add: scenario_bot_fields)
  have fresh: "checkTradeOpportunity (scenario_bot 0) 40000 40000 (Inr rich)
      \<noteq> (Inr None, [DebugOracleStale 10000])"
    by (simp add: checkTradeOpportunity_def scenario_bot_fields rich_def Let_def split: prod.splits)
  show ?thesis
    using stale fresh stale_oracle_rejects [OF stale, of 41001 "Inr rich"]
      stale_oracle_rejects [OF stale, of 41001 "Inl (Error ''rpc down'')"]
    by (simp add: scenario_bot_fields)
qed

text \<open>
  C9 as stated fails on the basic bot, which keeps no time for the oracle prices and has
  no freshness gate: with an oracle message handled before time 0 and never again, the
  tick a billion milliseconds later makes the balance call and returns an opportunity.
\<close>

theorem stale_oracle_counterexample:
  "b_softwarePrices (scenario_bot_b 0)
     = b_softwarePrices (onSoftwareMessage_b (new_BasicBot ''tokenUp'' ''tokenDown'')
                           \<lparr>prob_up = Some 75, prob_down = Some 25\<rparr>) \<and>
   checkTradeOpportunity_b (scenario_bot_b 0) 1000000000 (Inr rich)
     = (Inr (Some scenario_opportunity_b), [BalanceCheck]) \<and>
   checkTradeOpportunity_b (scenario_bot_b 0) 1000000000 (Inr rich) \<noteq> (Inr None, [])"
proof -
  have "checkTradeOpportunity_b (scenario_bot_b 0) 1000000000 (Inr rich)
     = (Inr (Some scenario_opportunity_b), [BalanceCheck])"
    by (rule scenario_b_after_cooldown) simp
  then show ?thesis
    by (simp add: scenario_bot_b_def)
qed

end
